theory Spec2Isabelle
  imports Main
begin

section \<open>URL routing of the part app (part/urls.py)\<close>

text \<open>
  The module builds four lists of \<^verbatim>\<open>url(regex, target)\<close> entries. A target is a view
  (\<^verbatim>\<open>views.X.as_view()\<close>) or \<^verbatim>\<open>include(other_list)\<close>. The views themselves are
  imported from elsewhere; here they are names.
\<close>

datatype view =
    PartCategoryDetail | PartCategoryList
  | PartParamDetail | PartParamList
  | PartTemplateDetail | PartTemplateList
  | PartDetail | PartList

subsection \<open>The regular expressions of the module\<close>

text \<open>
  Every pattern of the module starts with \<^verbatim>\<open>^\<close> and is used through the dispatcher's
  \<^verbatim>\<open>regex.search(path)\<close>, so a match always starts at the first character of the path.
  After the \<^verbatim>\<open>^\<close> a pattern is a sequence of items: a character class, a class under
  \<^verbatim>\<open>*\<close>, \<^verbatim>\<open>+\<close> or \<^verbatim>\<open>?\<close>, the named group \<^verbatim>\<open>(?P<name>[class]+)\<close>, or \<^verbatim>\<open>$\<close>.
\<close>

datatype cls =
    Lit char      \<comment> \<open>a literal character (also an escaped one, \<^verbatim>\<open>\?\<close>)\<close>
  | Digit         \<comment> \<open>\<^verbatim>\<open>[0-9]\<close>\<close>
  | NotSlash      \<comment> \<open>\<^verbatim>\<open>[^/]\<close>\<close>

datatype item =
    One cls
  | Star cls
  | Plus cls
  | Opt cls
  | Named string cls   \<comment> \<open>\<^verbatim>\<open>(?P<name>[class]+)\<close>\<close>
  | Eos                \<comment> \<open>\<^verbatim>\<open>$\<close>\<close>

type_synonym regex = "item list"

fun cls_match :: "cls \<Rightarrow> char \<Rightarrow> bool" where
  "cls_match (Lit c) x = (x = c)"
| "cls_match Digit x = (x \<in> set ''0123456789'')"
| "cls_match NotSlash x = (x \<noteq> CHR ''/'')"

text \<open>
  \<open>splits c s\<close> lists the ways a repetition of the class \<open>c\<close> can take a prefix of
  \<open>s\<close>, the longest first: the order in which a greedy, backtracking matcher tries them.
\<close>

fun splits :: "cls \<Rightarrow> string \<Rightarrow> (string \<times> string) list" where
  "splits c [] = [([], [])]"
| "splits c (x # xs) =
     (if cls_match c x
      then map (\<lambda>(p, t). (x # p, t)) (splits c xs) @ [([], x # xs)]
      else [([], x # xs)])"

fun first_match :: "('a \<Rightarrow> 'b option) \<Rightarrow> 'a list \<Rightarrow> 'b option" where
  "first_match f [] = None"
| "first_match f (x # xs) = (case f x of Some y \<Rightarrow> Some y | None \<Rightarrow> first_match f xs)"

text \<open>
  \<open>rmatch r s\<close> is \<^verbatim>\<open>re.search\<close> of the pattern \<^verbatim>\<open>^r\<close> in \<open>s\<close>: \<open>None\<close> when there is
  no match, else the named groups and the text after the match (\<^verbatim>\<open>s[match.end():]\<close>).
  \<^verbatim>\<open>$\<close> matches at the end of the text and just before a newline that ends it.
\<close>

fun rmatch :: "regex \<Rightarrow> string \<Rightarrow> ((string \<times> string) list \<times> string) option" where
  "rmatch [] s = Some ([], s)"
| "rmatch (One c # r) s =
     (case s of [] \<Rightarrow> None | x # xs \<Rightarrow> if cls_match c x then rmatch r xs else None)"
| "rmatch (Star c # r) s = first_match (\<lambda>(p, t). rmatch r t) (splits c s)"
| "rmatch (Plus c # r) s =
     first_match (\<lambda>(p, t). rmatch r t) (filter (\<lambda>(p, t). p \<noteq> []) (splits c s))"
| "rmatch (Opt c # r) s =
     first_match (\<lambda>(p, t). rmatch r t) (filter (\<lambda>(p, t). length p \<le> 1) (splits c s))"
| "rmatch (Named n c # r) s =
     first_match (\<lambda>(p, t). map_option (\<lambda>(g, u). ((n, p) # g, u)) (rmatch r t))
       (filter (\<lambda>(p, t). p \<noteq> []) (splits c s))"
| "rmatch (Eos # r) s = (if s = [] \<or> s = [CHR 0x0A] then rmatch r s else None)"

definition lit :: "string \<Rightarrow> regex" where
  "lit s = map (\<lambda>c. One (Lit c)) s"

subsection \<open>The dispatcher\<close>

text \<open>
  The framework's resolver tries the entries of a list in order. A view entry whose regex
  matches is the answer. An \<^verbatim>\<open>include\<close> entry whose regex matches hands the rest of the
  path to its own list; when nothing there matches, the resolver goes on with the next
  entry. \<open>None\<close> is the resolver's \<^verbatim>\<open>Resolver404\<close>.
\<close>

datatype entry = Url regex view | Include regex "entry list"

fun resolve :: "entry list \<Rightarrow> string \<Rightarrow> (view \<times> (string \<times> string) list) option"
  and resolve_entry :: "entry \<Rightarrow> string \<Rightarrow> (view \<times> (string \<times> string) list) option" where
  "resolve [] p = None"
| "resolve (e # es) p =
     (case resolve_entry e p of Some m \<Rightarrow> Some m | None \<Rightarrow> resolve es p)"
| "resolve_entry (Url r v) p =
     (case rmatch r p of None \<Rightarrow> None | Some (caps, rest) \<Rightarrow> Some (v, caps))"
| "resolve_entry (Include r sub) p =
     (case rmatch r p of
        None \<Rightarrow> None
      | Some (caps, rest) \<Rightarrow> map_option (\<lambda>(v, c). (v, caps @ c)) (resolve sub rest))"

subsection \<open>The route tables\<close>

definition categorypatterns :: "entry list" where
  "categorypatterns =
     [ Url (lit ''category/'' @ [Named ''pk'' Digit, One (Lit CHR ''/''), Eos]) PartCategoryDetail,
       Url [Eos] PartCategoryList ]"

definition partparampatterns :: "entry list" where
  "partparampatterns =
     [ Url [Named ''pk'' Digit, One (Lit CHR ''/''), Eos] PartParamDetail,
       Url [One (Lit CHR ''?''), Star NotSlash, One (Lit CHR ''/''), Eos] PartParamList,
       Url [Eos] PartParamList ]"

definition parttemplatepatterns :: "entry list" where
  "parttemplatepatterns =
     [ Url [Named ''pk'' Digit, One (Lit CHR ''/''), Eos] PartTemplateDetail,
       Url [Eos] PartTemplateList ]"

definition urlpatterns :: "entry list" where
  "urlpatterns =
     [ Url [Named ''pk'' Digit, One (Lit CHR ''/''), Eos] PartDetail,
       Url (lit ''category/'') PartCategoryList,
       Include (lit ''parameters/'') partparampatterns,
       Include (lit ''templates/'') parttemplatepatterns,
       Url [Star (Lit CHR ''?''), Star NotSlash, Opt (Lit CHR ''/''), Eos] PartList ]"

text \<open>The views an entry list can answer with.\<close>

fun views_of :: "entry list \<Rightarrow> view set"
  and views_of_entry :: "entry \<Rightarrow> view set" where
  "views_of [] = {}"
| "views_of (e # es) = views_of_entry e \<union> views_of es"
| "views_of_entry (Url r v) = {v}"
| "views_of_entry (Include r sub) = views_of sub"

section \<open>Plugin models (plugin/models.py)\<close>

subsection \<open>Python values and exceptions\<close>

text \<open>
  The attribute values the module handles: \<^verbatim>\<open>None\<close>, booleans, integers and strings.
  \<open>truthy\<close> is the truth value an \<^verbatim>\<open>if\<close> takes, \<open>py_str\<close> is the builtin \<^verbatim>\<open>str\<close>.
  The model compares with \<open>=\<close> where the source compares with \<^verbatim>\<open>is\<close> against the
  singletons \<^verbatim>\<open>True\<close> and \<^verbatim>\<open>False\<close>: \<open>PyInt 1\<close> is truthy but is not \<open>PyBool True\<close>.
\<close>

datatype pyval = PyNone | PyBool bool | PyInt int | PyStr string

fun truthy :: "pyval \<Rightarrow> bool" where
  "truthy PyNone = False"
| "truthy (PyBool b) = b"
| "truthy (PyInt i) = (i \<noteq> 0)"
| "truthy (PyStr s) = (s \<noteq> [])"

definition digit_char :: "nat \<Rightarrow> char" where
  "digit_char d = ''0123456789'' ! (d mod 10)"

fun nat_digits :: "nat \<Rightarrow> string" where
  "nat_digits n =
     (if n < 10 then [digit_char n] else nat_digits (n div 10) @ [digit_char (n mod 10)])"

fun py_str :: "pyval \<Rightarrow> string" where
  "py_str PyNone = ''None''"
| "py_str (PyBool b) = (if b then ''True'' else ''False'')"
| "py_str (PyInt i) = (if i < 0 then CHR ''-'' # nat_digits (nat (- i)) else nat_digits (nat i))"
| "py_str (PyStr s) = s"

text \<open>
  The exceptions that matter to the module. \<^verbatim>\<open>UnicodeError\<close> is a subclass of
  \<^verbatim>\<open>ValueError\<close>; \<open>isinstance_exc e c\<close> is \<^verbatim>\<open>isinstance(e, c)\<close>, which is what an
  \<^verbatim>\<open>except c\<close> clause tests.
\<close>

datatype exc =
    AttributeError | ValueError | UnicodeError | TypeError | KeyError
  | IntegrityError | RuntimeError

fun isinstance_exc :: "exc \<Rightarrow> exc \<Rightarrow> bool" where
  "isinstance_exc UnicodeError ValueError = True"
| "isinstance_exc e c = (e = c)"

subsection \<open>The plugin registry\<close>

text \<open>
  A plugin instance, as far as the module reads it: reading the attribute \<open>n\<close> gives a
  value or raises (\<^verbatim>\<open>AttributeError\<close> when the instance has no such attribute, anything
  when the attribute is a property that raises), and so does reading \<^verbatim>\<open>_mixinreg\<close>, a
  dictionary. \<open>plugin_truthy\<close> is the truth value the instance takes in an \<^verbatim>\<open>if\<close>: true
  for an ordinary object, false for an instance of a class whose \<^verbatim>\<open>__bool__\<close> returns
  \<^verbatim>\<open>False\<close> or whose \<^verbatim>\<open>__len__\<close> returns 0.
\<close>

type_synonym mixinreg = "(string \<times> string) list"

record plugin_instance =
  plugin_truthy :: bool
  plugin_attrs :: "string \<Rightarrow> exc + pyval"
  plugin_mixinreg :: "exc + mixinreg"

text \<open>A dictionary of setting definitions: setting key to the definition's entries.\<close>

type_synonym settings = "(string \<times> (string \<times> pyval) list) list"

text \<open>
  The process-wide plugin registry: \<^verbatim>\<open>registry.plugins\<close>, \<^verbatim>\<open>registry.mixins_settings\<close>,
  and the number of times \<^verbatim>\<open>registry.reload_plugins()\<close> has been called.
\<close>

record registry =
  plugins :: "string \<rightharpoonup> plugin_instance"
  mixins_settings :: "string \<rightharpoonup> settings"
  reload_calls :: nat

text \<open>
  Modelled from the spec: \<^verbatim>\<open>registry.reload_plugins\<close> is defined outside the module
  (``a process-wide plugin registry object exposing \<^verbatim>\<open>plugins\<close> and
  \<^verbatim>\<open>reload_plugins()\<close>; this excerpt only calls it, never defines it''). The model records
  the call and nothing else.
\<close>

definition reload_plugins :: "registry \<Rightarrow> registry" where
  "reload_plugins reg = reg\<lparr>reload_calls := Suc (reload_calls reg)\<rparr>"

subsection \<open>PluginConfig\<close>

text \<open>
  The database fields of a \<^verbatim>\<open>PluginConfig\<close> (what \<^verbatim>\<open>models.Model.__init__\<close> sets), and
  the instance with the attributes \<^verbatim>\<open>__init__\<close> adds: \<^verbatim>\<open>__org_active\<close>, \<^verbatim>\<open>plugin\<close> and
  \<^verbatim>\<open>meta\<close>. \<open>active\<close> is a Python value: the source tests it with \<^verbatim>\<open>is True\<close> and
  \<^verbatim>\<open>is False\<close>.
\<close>

record model_fields =
  pk :: "int option"
  key :: string
  name :: "string option"
  active :: pyval

record pluginconfig = model_fields +
  org_active :: pyval
  plugin :: "plugin_instance option"
  meta :: "(string \<times> pyval) list"

definition META_KEYS :: "string list" where
  "META_KEYS = [''slug'', ''human_name'', ''description'', ''author'', ''pub_date'',
                ''version'', ''website'', ''license'', ''package_path'', ''settings_url'']"

text \<open>
  \<^verbatim>\<open>getattr(obj, name, None)\<close>: the default replaces an \<^verbatim>\<open>AttributeError\<close> only.
\<close>

definition getattr_default_None :: "plugin_instance \<Rightarrow> string \<Rightarrow> exc + pyval" where
  "getattr_default_None p n =
     (case plugin_attrs p n of
        Inr v \<Rightarrow> Inr v
      | Inl e \<Rightarrow> if isinstance_exc e AttributeError then Inr PyNone else Inl e)"

text \<open>
  \<^verbatim>\<open>if self.plugin:\<close> tests the truth value of \<^verbatim>\<open>self.plugin\<close>: \<^verbatim>\<open>None\<close> is false, a
  plugin instance is as true as \<open>plugin_truthy\<close> says.
\<close>

definition plugin_is_true :: "plugin_instance option \<Rightarrow> bool" where
  "plugin_is_true pl = (case pl of None \<Rightarrow> False | Some p \<Rightarrow> plugin_truthy p)"

definition get_plugin_meta :: "plugin_instance option \<Rightarrow> string \<Rightarrow> exc + pyval" where
  "get_plugin_meta pl n =
     (if plugin_is_true pl then
        (case pl of
           Some p \<Rightarrow>
             (case getattr_default_None p n of
                Inl e \<Rightarrow> Inl e
              | Inr v \<Rightarrow> Inr (PyStr (py_str v)))
         | None \<Rightarrow> Inr PyNone)
      else Inr PyNone)"

text \<open>The dictionary comprehension of \<^verbatim>\<open>__init__\<close>: the first read that raises ends it.\<close>

fun build_meta :: "plugin_instance option \<Rightarrow> string list \<Rightarrow> exc + (string \<times> pyval) list" where
  "build_meta pl [] = Inr []"
| "build_meta pl (n # ns) =
     (case get_plugin_meta pl n of
        Inl e \<Rightarrow> Inl e
      | Inr v \<Rightarrow>
          (case build_meta pl ns of
             Inl e \<Rightarrow> Inl e
           | Inr m \<Rightarrow> Inr ((n, v) # m)))"

text \<open>
  \<^verbatim>\<open>PluginConfig.__init__\<close>. \<open>super_init\<close> is \<^verbatim>\<open>models.Model.__init__\<close>, which belongs to
  the framework: it turns the constructor's arguments into the field values or raises.
\<close>

definition PluginConfig_init ::
  "('a \<Rightarrow> exc + model_fields) \<Rightarrow> registry \<Rightarrow> 'a \<Rightarrow> exc + pluginconfig" where
  "PluginConfig_init super_init reg args =
     (case super_init args of
        Inl e \<Rightarrow> Inl e
      | Inr f \<Rightarrow>
          (let pl = plugins reg (key f) in
           case build_meta pl META_KEYS of
             Inl e \<Rightarrow> Inl e
           | Inr m \<Rightarrow>
               Inr \<lparr>pk = pk f, key = key f, name = name f, active = active f,
                    org_active = active f, plugin = pl, meta = m\<rparr>))"

text \<open>
  \<^verbatim>\<open>PluginConfig.mixins\<close>. Reading \<^verbatim>\<open>self.plugin._mixinreg\<close> raises \<^verbatim>\<open>AttributeError\<close>
  when \<^verbatim>\<open>self.plugin\<close> is \<^verbatim>\<open>None\<close>.
\<close>

definition read_mixinreg :: "pluginconfig \<Rightarrow> exc + mixinreg" where
  "read_mixinreg self =
     (case plugin self of None \<Rightarrow> Inl AttributeError | Some p \<Rightarrow> plugin_mixinreg p)"

definition mixins :: "pluginconfig \<Rightarrow> exc + mixinreg" where
  "mixins self =
     (case read_mixinreg self of
        Inr m \<Rightarrow> Inr m
      | Inl e \<Rightarrow>
          if isinstance_exc e AttributeError \<or> isinstance_exc e ValueError
          then Inr [] else Inl e)"

subsection \<open>Keyword arguments\<close>

text \<open>
  What the module's methods receive in \<^verbatim>\<open>**kwargs\<close>: plain values, a dictionary of
  setting definitions, a \<^verbatim>\<open>PluginConfig\<close>, or an instance of a subclass of
  \<^verbatim>\<open>InvenTreePluginBase\<close>. In an \<^verbatim>\<open>if\<close> a dictionary is true when it is not empty and a
  plugin instance is as true as \<open>plugin_truthy\<close> says; a \<^verbatim>\<open>PluginConfig\<close> is true, since
  neither the class nor \<^verbatim>\<open>models.Model\<close> defines \<^verbatim>\<open>__bool__\<close> or \<^verbatim>\<open>__len__\<close>.
\<close>

datatype kwval =
    Val pyval
  | Settings settings
  | Config pluginconfig
  | Base plugin_instance

type_synonym kwargs = "string \<rightharpoonup> kwval"

fun kw_truthy :: "kwval \<Rightarrow> bool" where
  "kw_truthy (Val v) = truthy v"
| "kw_truthy (Settings s) = (s \<noteq> [])"
| "kw_truthy (Config c) = True"
| "kw_truthy (Base p) = plugin_truthy p"

text \<open>\<^verbatim>\<open>kwargs.pop(k, d)\<close>: the value and the dictionary without the key.\<close>

definition kw_pop :: "kwargs \<Rightarrow> string \<Rightarrow> kwval \<Rightarrow> kwval \<times> kwargs" where
  "kw_pop kw k d = (case kw k of None \<Rightarrow> (d, kw) | Some v \<Rightarrow> (v, kw(k := None)))"

subsection \<open>PluginConfig.save\<close>

text \<open>
  \<open>super_save\<close> is \<^verbatim>\<open>models.Model.save\<close>: given the instance, the two force flags, the
  other positional arguments, the keyword arguments and the database, it returns a value
  or raises, and leaves a database. It does not assign \<^verbatim>\<open>active\<close> or the private
  \<^verbatim>\<open>__org_active\<close>, so \<open>save\<close> reads them afterwards as they were.
  The result of \<open>save\<close> is the returned value or the exception, with the database and the
  registry as they are left.
\<close>

definition active_changed :: "pluginconfig \<Rightarrow> bool" where
  "active_changed self =
     ((active self = PyBool False \<and> org_active self = PyBool True) \<or>
      (active self = PyBool True \<and> org_active self = PyBool False))"

definition save ::
  "(pluginconfig \<Rightarrow> bool \<Rightarrow> bool \<Rightarrow> 'a \<Rightarrow> kwargs \<Rightarrow> 'db \<Rightarrow> (exc + 'r) \<times> 'db) \<Rightarrow>
   pluginconfig \<Rightarrow> bool \<Rightarrow> bool \<Rightarrow> 'a \<Rightarrow> kwargs \<Rightarrow> 'db \<times> registry \<Rightarrow>
   (exc + 'r) \<times> 'db \<times> registry" where
  "save super_save self force_insert force_update args kwargs st =
     (case st of (db, reg) \<Rightarrow>
      case kw_pop kwargs ''no_reload'' (Val (PyBool False)) of (reload, kwargs') \<Rightarrow>
      case super_save self force_insert force_update args kwargs' db of
        (Inl e, db') \<Rightarrow> (Inl e, db', reg)
      | (Inr ret, db') \<Rightarrow>
          if \<not> kw_truthy reload then
            if active_changed self
            then (Inr ret, db', reload_plugins reg)
            else (Inr ret, db', reg)
          else (Inr ret, db', reg))"

subsection \<open>Setting definitions\<close>

text \<open>
  \<^verbatim>\<open>PluginSetting.get_setting_definition\<close>. \<open>super_gsd\<close> is the method of
  \<^verbatim>\<open>BaseInvenTreeSetting\<close> (\<^verbatim>\<open>common.models\<close>) and \<open>plugin_config\<close> the method of
  \<^verbatim>\<open>InvenTreePluginBase\<close>; the module calls both and defines neither. A truthy
  \<^verbatim>\<open>plugin\<close> argument that is neither kind of object has no \<^verbatim>\<open>key\<close> attribute.
\<close>

definition lookup_mixins_settings :: "registry \<Rightarrow> string \<Rightarrow> settings" where
  "lookup_mixins_settings reg k = (case mixins_settings reg k of None \<Rightarrow> [] | Some s \<Rightarrow> s)"

definition PluginSetting_get_setting_definition ::
  "(string \<Rightarrow> kwargs \<Rightarrow> exc + 'r) \<Rightarrow> (plugin_instance \<Rightarrow> exc + pluginconfig) \<Rightarrow>
   registry \<Rightarrow> string \<Rightarrow> kwargs \<Rightarrow> exc + 'r" where
  "PluginSetting_get_setting_definition super_gsd plugin_config reg k kwargs =
     (if kwargs ''settings'' = None then
        (case kw_pop kwargs ''plugin'' (Val PyNone) of (pl, kwargs') \<Rightarrow>
         if kw_truthy pl then
           (case pl of
              Base p \<Rightarrow>
                (case plugin_config p of
                   Inl e \<Rightarrow> Inl e
                 | Inr cfg \<Rightarrow>
                     super_gsd k
                       (kwargs'(''settings'' \<mapsto> Settings (lookup_mixins_settings reg (key cfg)))))
            | Config cfg \<Rightarrow>
                super_gsd k
                  (kwargs'(''settings'' \<mapsto> Settings (lookup_mixins_settings reg (key cfg))))
            | _ \<Rightarrow> Inl AttributeError)
         else super_gsd k kwargs')
      else super_gsd k kwargs)"

text \<open>
  \<^verbatim>\<open>NotificationUserSetting.get_setting_definition\<close>; \<open>user_settings\<close> is
  \<^verbatim>\<open>common.notifications.storage.user_settings\<close>.
\<close>

definition NotificationUserSetting_get_setting_definition ::
  "(string \<Rightarrow> kwargs \<Rightarrow> exc + 'r) \<Rightarrow> settings \<Rightarrow> string \<Rightarrow> kwargs \<Rightarrow> exc + 'r" where
  "NotificationUserSetting_get_setting_definition super_gsd user_settings k kwargs =
     super_gsd k (kwargs(''settings'' \<mapsto> Settings user_settings))"

section \<open>The persisted tables\<close>

text \<open>
  Modelled from the spec: the object-relational mapper and the database engine are not
  part of the sources; the module only declares the columns and their constraints
  (\<^verbatim>\<open>unique=True\<close>, \<^verbatim>\<open>null=True\<close>, \<^verbatim>\<open>Meta.unique_together\<close>). The spec speaks of ``three
  relational tables, with standard primary keys and foreign-key constraints'' on which
  ``uniqueness constraints'' are enforced. The store below is such a table: a list of
  rows, checked on every write against the declared constraints the way a relational
  database checks them. A column that is not nullable refuses \<^verbatim>\<open>NULL\<close>; a uniqueness
  constraint over a set of columns refuses a row that agrees with a stored row on all of
  them, where \<^verbatim>\<open>NULL\<close> agrees with nothing, not even with \<^verbatim>\<open>NULL\<close>. Foreign keys are
  stored as the referenced row's id; referential integrity is not modelled.
\<close>

type_synonym row = "(string \<times> pyval) list"

definition col :: "row \<Rightarrow> string \<Rightarrow> pyval" where
  "col r c = (case map_of r c of None \<Rightarrow> PyNone | Some v \<Rightarrow> v)"

record field_decl =
  f_name :: string
  f_null :: bool
  f_unique :: bool

record model_decl =
  m_fields :: "field_decl list"
  m_unique_together :: "string list list"

definition unique_sets :: "model_decl \<Rightarrow> string list list" where
  "unique_sets m = map (\<lambda>f. [f_name f]) (filter f_unique (m_fields m)) @ m_unique_together m"

definition conflicts :: "string list \<Rightarrow> row \<Rightarrow> row \<Rightarrow> bool" where
  "conflicts cols r r' = list_all (\<lambda>c. col r c \<noteq> PyNone \<and> col r c = col r' c) cols"

definition any_conflict :: "model_decl \<Rightarrow> row \<Rightarrow> row \<Rightarrow> bool" where
  "any_conflict m r r' = list_ex (\<lambda>cols. conflicts cols r r') (unique_sets m)"

definition null_violation :: "model_decl \<Rightarrow> row \<Rightarrow> bool" where
  "null_violation m r = list_ex (\<lambda>f. \<not> f_null f \<and> col r (f_name f) = PyNone) (m_fields m)"

definition row_id :: "row \<Rightarrow> pyval" where
  "row_id r = col r ''id''"

definition fresh_id :: "row list \<Rightarrow> int" where
  "fresh_id tbl = 1 + fold (\<lambda>r m. case row_id r of PyInt i \<Rightarrow> max i m | _ \<Rightarrow> m) tbl 0"

text \<open>\<^verbatim>\<open>INSERT\<close>: a row without an id gets a fresh one.\<close>

definition db_insert :: "model_decl \<Rightarrow> row list \<Rightarrow> row \<Rightarrow> exc + row list" where
  "db_insert m tbl r =
     (let r' = (if row_id r = PyNone then (''id'', PyInt (fresh_id tbl)) # r else r) in
      if null_violation m r' \<or> list_ex (any_conflict m r') tbl
      then Inl IntegrityError
      else Inr (tbl @ [r']))"

text \<open>\<^verbatim>\<open>UPDATE ... WHERE id = row_id r\<close>: the stored row of that id becomes \<open>r\<close>.\<close>

definition db_update :: "model_decl \<Rightarrow> row list \<Rightarrow> row \<Rightarrow> exc + row list" where
  "db_update m tbl r =
     (if null_violation m r \<or> list_ex (any_conflict m r) (filter (\<lambda>x. row_id x \<noteq> row_id r) tbl)
      then Inl IntegrityError
      else Inr (map (\<lambda>x. if row_id x = row_id r then r else x) tbl))"

definition db_delete :: "row list \<Rightarrow> int \<Rightarrow> row list" where
  "db_delete tbl i = filter (\<lambda>x. row_id x \<noteq> PyInt i) tbl"

datatype db_op = Insert row | Update row | Delete int

fun db_apply :: "model_decl \<Rightarrow> row list \<Rightarrow> db_op \<Rightarrow> exc + row list" where
  "db_apply m tbl (Insert r) = db_insert m tbl r"
| "db_apply m tbl (Update r) = db_update m tbl r"
| "db_apply m tbl (Delete i) = Inr (db_delete tbl i)"

text \<open>The tables that can be stored: what successful writes make of the empty table.\<close>

inductive stored :: "model_decl \<Rightarrow> row list \<Rightarrow> bool" for m :: model_decl where
  stored_empty: "stored m []"
| stored_write: "stored m tbl \<Longrightarrow> db_apply m tbl op = Inr tbl' \<Longrightarrow> stored m tbl'"

subsection \<open>The three models' declarations\<close>

text \<open>
  Every model has the framework's automatic primary key \<^verbatim>\<open>id\<close>. The columns \<^verbatim>\<open>key\<close> and
  \<^verbatim>\<open>value\<close> of the two setting models come from \<^verbatim>\<open>BaseInvenTreeSetting\<close>, which is not in
  the sources (the spec: ``a per-plugin key/value setting row''); they are taken as plain
  character columns, not nullable and not unique on their own.
\<close>

definition PluginConfig_model :: model_decl where
  "PluginConfig_model =
     \<lparr>m_fields =
        [\<lparr>f_name = ''id'', f_null = False, f_unique = True\<rparr>,
         \<lparr>f_name = ''key'', f_null = False, f_unique = True\<rparr>,
         \<lparr>f_name = ''name'', f_null = True, f_unique = False\<rparr>,
         \<lparr>f_name = ''active'', f_null = False, f_unique = False\<rparr>],
      m_unique_together = []\<rparr>"

definition PluginSetting_model :: model_decl where
  "PluginSetting_model =
     \<lparr>m_fields =
        [\<lparr>f_name = ''id'', f_null = False, f_unique = True\<rparr>,
         \<lparr>f_name = ''key'', f_null = False, f_unique = False\<rparr>,
         \<lparr>f_name = ''value'', f_null = False, f_unique = False\<rparr>,
         \<lparr>f_name = ''plugin'', f_null = False, f_unique = False\<rparr>],
      m_unique_together = [[''plugin'', ''key'']]\<rparr>"

definition NotificationUserSetting_model :: model_decl where
  "NotificationUserSetting_model =
     \<lparr>m_fields =
        [\<lparr>f_name = ''id'', f_null = False, f_unique = True\<rparr>,
         \<lparr>f_name = ''key'', f_null = False, f_unique = False\<rparr>,
         \<lparr>f_name = ''value'', f_null = False, f_unique = False\<rparr>,
         \<lparr>f_name = ''method'', f_null = False, f_unique = False\<rparr>,
         \<lparr>f_name = ''user'', f_null = True, f_unique = False\<rparr>],
      m_unique_together = [[''method'', ''user'', ''key'']]\<rparr>"

subsection \<open>Saving a PluginConfig to its table\<close>

definition to_row :: "pluginconfig \<Rightarrow> row" where
  "to_row self =
     [(''id'', case pk self of None \<Rightarrow> PyNone | Some i \<Rightarrow> PyInt i),
      (''key'', PyStr (key self)),
      (''name'', case name self of None \<Rightarrow> PyNone | Some n \<Rightarrow> PyStr n),
      (''active'', active self)]"

text \<open>
  Modelled from the spec: the framework's \<^verbatim>\<open>Model.save\<close> on the table above, in
  outline. It accepts no keyword argument of its own invention (an unknown one is a
  \<^verbatim>\<open>TypeError\<close>), refuses both force flags together, updates the stored row of the
  instance's id when there is one and inserts otherwise.
\<close>

definition Model_save ::
  "pluginconfig \<Rightarrow> bool \<Rightarrow> bool \<Rightarrow> unit \<Rightarrow> kwargs \<Rightarrow> row list \<Rightarrow> (exc + unit) \<times> row list" where
  "Model_save self force_insert force_update args kw tbl =
     (if \<exists>k \<in> dom kw. k \<notin> {''using'', ''update_fields''} then (Inl TypeError, tbl)
      else if force_insert \<and> force_update then (Inl ValueError, tbl)
      else
        (let r = to_row self;
             known = list_ex (\<lambda>x. row_id x = row_id r) tbl;
             res = (if known \<and> \<not> force_insert then db_update PluginConfig_model tbl r
                    else if force_update then Inl ValueError
                    else db_insert PluginConfig_model tbl r)
         in case res of Inl e \<Rightarrow> (Inl e, tbl) | Inr tbl' \<Rightarrow> (Inr (), tbl')))"

subsection \<open>The invariant of a table\<close>

text \<open>
  A model has a primary key when it declares the column \<^verbatim>\<open>id\<close> unique and not nullable.
  A table is in order when no two of its rows violate a uniqueness constraint and no row
  violates a \<^verbatim>\<open>NOT NULL\<close> constraint.
\<close>

definition has_pk :: "model_decl \<Rightarrow> bool" where
  "has_pk m = list_ex (\<lambda>f. f_name f = ''id'' \<and> \<not> f_null f \<and> f_unique f) (m_fields m)"

definition table_ok :: "model_decl \<Rightarrow> row list \<Rightarrow> bool" where
  "table_ok m tbl =
     (sorted_wrt (\<lambda>r r'. \<not> any_conflict m r r') tbl \<and> list_all (\<lambda>r. \<not> null_violation m r) tbl)"

section \<open>Sample data\<close>

text \<open>Concrete plugins, a registry, instances and rows, on which the theorems are run.\<close>

definition sample_plugin :: plugin_instance where
  "sample_plugin =
     \<lparr>plugin_truthy = True,
      plugin_attrs = (\<lambda>n. if n = ''slug'' then Inr (PyStr ''sample'')
                          else if n = ''version'' then Inr (PyInt 2)
                          else Inl AttributeError),
      plugin_mixinreg = Inr [(''settings'', ''Settings'')]\<rparr>"

definition broken_plugin :: plugin_instance where
  "broken_plugin =
     \<lparr>plugin_truthy = True, plugin_attrs = (\<lambda>n. Inl AttributeError),
      plugin_mixinreg = Inl ValueError\<rparr>"

text \<open>A plugin whose class makes its instances false in an \<^verbatim>\<open>if\<close>.\<close>

definition falsy_plugin :: plugin_instance where
  "falsy_plugin =
     \<lparr>plugin_truthy = False,
      plugin_attrs = (\<lambda>n. if n = ''slug'' then Inr (PyStr ''falsy'') else Inl AttributeError),
      plugin_mixinreg = Inr []\<rparr>"

definition sample_registry :: registry where
  "sample_registry =
     \<lparr>plugins = [''sample'' \<mapsto> sample_plugin, ''broken'' \<mapsto> broken_plugin,
                 ''falsy'' \<mapsto> falsy_plugin],
      mixins_settings = [''sample'' \<mapsto> [(''API_KEY'', [(''name'', PyStr ''API Key'')])],
                         ''falsy'' \<mapsto> [(''API_KEY'', [(''name'', PyStr ''Falsy Key'')])]],
      reload_calls = 0\<rparr>"

definition sample_init :: "model_fields \<Rightarrow> exc + model_fields" where
  "sample_init f = Inr f"

definition sample_fields :: "string \<Rightarrow> model_fields" where
  "sample_fields k = \<lparr>pk = None, key = k, name = None, active = PyBool False\<rparr>"

definition sample_config :: "string \<Rightarrow> pyval \<Rightarrow> pyval \<Rightarrow> pluginconfig" where
  "sample_config k a org =
     \<lparr>pk = None, key = k, name = None, active = a, org_active = org,
      plugin = plugins sample_registry k, meta = []\<rparr>"

definition sample_plugin_config :: "plugin_instance \<Rightarrow> exc + pluginconfig" where
  "sample_plugin_config p =
     (case plugin_attrs p ''slug'' of
        Inr (PyStr k) \<Rightarrow> Inr (sample_config k (PyBool True) (PyBool True))
      | _ \<Rightarrow> Inl AttributeError)"

definition sample_gsd :: "string \<Rightarrow> kwargs \<Rightarrow> exc + (string \<times> pyval) list" where
  "sample_gsd k kw =
     (case kw ''settings'' of
        Some (Settings s) \<Rightarrow> (case map_of s k of Some d \<Rightarrow> Inr d | None \<Rightarrow> Inr [])
      | _ \<Rightarrow> Inr [])"

definition pc_row :: "int \<Rightarrow> string \<Rightarrow> row" where
  "pc_row i k =
     [(''id'', PyInt i), (''key'', PyStr k), (''name'', PyNone), (''active'', PyBool False)]"

definition ps_row :: "int \<Rightarrow> int \<Rightarrow> string \<Rightarrow> row" where
  "ps_row i p k =
     [(''id'', PyInt i), (''key'', PyStr k), (''value'', PyStr ''1''), (''plugin'', PyInt p)]"

definition nus_row :: "int \<Rightarrow> pyval \<Rightarrow> row" where
  "nus_row i u =
     [(''id'', PyInt i), (''key'', PyStr ''ENABLED''), (''value'', PyStr ''True''),
      (''method'', PyStr ''mail''), (''user'', u)]"

section \<open>Properties of the route tables\<close>

lemma resolve_views:
  "resolve es p = Some (v, c) \<Longrightarrow> v \<in> views_of es"
  "resolve_entry e p = Some (v, c) \<Longrightarrow> v \<in> views_of_entry e"
  by (induction es p and e p arbitrary: v c and v c rule: resolve_resolve_entry.induct)
     (auto split: option.splits)

text \<open>
  Every path that starts with \<^verbatim>\<open>category/\<close> is answered by the list view, whatever
  follows: the second entry of \<open>urlpatterns\<close> binds the unanchored prefix pattern
  \<^verbatim>\<open>^category/\<close> to \<^verbatim>\<open>PartCategoryList\<close> itself, and the first entry needs a digit in
  front.
\<close>

lemma urlpatterns_category_prefix:
  "resolve urlpatterns (''category/'' @ rest) = Some (PartCategoryList, [])"
  by (simp add: urlpatterns_def lit_def)

lemma urlpatterns_category_list:
  "resolve urlpatterns ''category/'' = Some (PartCategoryList, [])"
  by (simp add: urlpatterns_def lit_def)

text \<open>
  \<open>categorypatterns\<close> is not reachable from \<open>urlpatterns\<close>, so no path at all is
  answered by the category detail view.
\<close>

lemma urlpatterns_never_category_detail:
  "resolve urlpatterns p \<noteq> Some (PartCategoryDetail, c)"
proof
  assume "resolve urlpatterns p = Some (PartCategoryDetail, c)"
  then have "PartCategoryDetail \<in> views_of urlpatterns"
    by (rule resolve_views(1))
  then show False
    by (simp add: urlpatterns_def partparampatterns_def parttemplatepatterns_def)
qed

text \<open>
  The detail route exists in \<open>categorypatterns\<close>, where it would answer
  \<^verbatim>\<open>category/5/\<close> had the list been consulted.
\<close>

lemma categorypatterns_detail:
  "resolve categorypatterns ''category/5/'' = Some (PartCategoryDetail, [(''pk'', ''5'')])"
  by (simp add: categorypatterns_def lit_def)

text \<open>
  Claim C2 (the route table sends \<^verbatim>\<open>category/<id>/\<close> to the category detail view and
  \<^verbatim>\<open>category/\<close> to the category list view). The code does not do the first: dispatched
  through \<open>urlpatterns\<close>, the path \<^verbatim>\<open>category/5/\<close> selects the list view, with no
  \<^verbatim>\<open>pk\<close> captured.
\<close>

theorem urlpatterns_category_detail_path:
  "resolve urlpatterns ''category/5/'' = Some (PartCategoryList, [])"
  by (simp add: urlpatterns_def lit_def)

section \<open>Properties of PluginConfig\<close>

lemmas store_defs =
  db_insert_def db_update_def Let_def row_id_def col_def fresh_id_def null_violation_def
  any_conflict_def unique_sets_def conflicts_def

lemmas sample_defs =
  sample_plugin_def broken_plugin_def falsy_plugin_def sample_registry_def sample_init_def sample_fields_def
  sample_config_def sample_plugin_config_def sample_gsd_def pc_row_def ps_row_def nus_row_def

subsection \<open>save\<close>

lemma active_changed_bool:
  "active self = PyBool a \<Longrightarrow> org_active self = PyBool b \<Longrightarrow> active_changed self = (a \<noteq> b)"
  by (auto simp: active_changed_def)

text \<open>A value that is not the very boolean never counts as a change: no reload for it.\<close>

lemma active_changed_needs_bools:
  "active_changed self \<Longrightarrow> (\<exists>a. active self = PyBool a \<and> org_active self = PyBool (\<not> a))"
  by (auto simp: active_changed_def)

text \<open>When the underlying save raises, the exception goes on and nothing is reloaded.\<close>

lemma save_raises_no_reload:
  assumes "kw_pop kwargs ''no_reload'' (Val (PyBool False)) = (reload, kwargs')"
    and "super_save self force_insert force_update args kwargs' db = (Inl e, db')"
  shows "save super_save self force_insert force_update args kwargs (db, reg) = (Inl e, db', reg)"
  using assms by (simp add: save_def)

lemma Model_save_sample:
  "Model_save (sample_config k a org) False False () Map.empty [] =
     (if a = PyNone then (Inl IntegrityError, [])
      else (Inr (), [(''id'', PyInt 1) # to_row (sample_config k a org)]))"
  by (simp add: Model_save_def to_row_def sample_config_def store_defs PluginConfig_model_def)

text \<open>
  Claim C1 as the code has it. Take a save whose underlying save returns. Without a
  truthy \<^verbatim>\<open>no_reload\<close> keyword argument it calls \<^verbatim>\<open>registry.reload_plugins\<close> exactly once
  when the active flag is the boolean \<^verbatim>\<open>False\<close> and was the boolean \<^verbatim>\<open>True\<close> at
  construction, or is \<^verbatim>\<open>True\<close> and was \<^verbatim>\<open>False\<close>; in every other case (the flag
  unchanged, or a value that is not one of the two booleans themselves) it does not call
  it. With a truthy \<^verbatim>\<open>no_reload\<close> it never calls it. Nothing else of the registry
  changes.
\<close>

theorem save_reloads_on_transition:
  assumes "kw_pop kwargs ''no_reload'' (Val (PyBool False)) = (reload, kwargs')"
    and "super_save self force_insert force_update args kwargs' db = (Inr ret, db')"
  shows "save super_save self force_insert force_update args kwargs (db, reg) =
           (Inr ret, db',
            reg\<lparr>reload_calls := reload_calls reg +
              (if \<not> kw_truthy reload \<and>
                  ((active self = PyBool False \<and> org_active self = PyBool True) \<or>
                   (active self = PyBool True \<and> org_active self = PyBool False))
               then 1 else 0)\<rparr>)"
  using assms by (auto simp: save_def active_changed_def reload_plugins_def)

theorem save_reloads_on_transition_witness:
  "kw_pop Map.empty ''no_reload'' (Val (PyBool False)) = (Val (PyBool False), Map.empty) \<and>
   Model_save (sample_config ''sample'' (PyBool True) (PyBool False)) False False () Map.empty []
     = (Inr (), [(''id'', PyInt 1) # to_row (sample_config ''sample'' (PyBool True) (PyBool False))]) \<and>
   save Model_save (sample_config ''sample'' (PyBool True) (PyBool False)) False False ()
       Map.empty ([], sample_registry)
     = (Inr (), [(''id'', PyInt 1) # to_row (sample_config ''sample'' (PyBool True) (PyBool False))],
        sample_registry\<lparr>reload_calls := 1\<rparr>) \<and>
   Model_save (sample_config ''sample'' (PyBool True) (PyBool True)) False False () Map.empty []
     = (Inr (), [(''id'', PyInt 1) # to_row (sample_config ''sample'' (PyBool True) (PyBool True))]) \<and>
   save Model_save (sample_config ''sample'' (PyBool True) (PyBool True)) False False ()
       Map.empty ([], sample_registry)
     = (Inr (), [(''id'', PyInt 1) # to_row (sample_config ''sample'' (PyBool True) (PyBool True))],
        sample_registry\<lparr>reload_calls := 0\<rparr>)"
proof -
  let ?c = "sample_config ''sample'' (PyBool True) (PyBool False)"
  let ?d = "sample_config ''sample'' (PyBool True) (PyBool True)"
  have h1: "kw_pop Map.empty ''no_reload'' (Val (PyBool False)) = (Val (PyBool False), Map.empty)"
    by (simp add: kw_pop_def)
  have h2: "Model_save ?c False False () Map.empty [] = (Inr (), [(''id'', PyInt 1) # to_row ?c])"
    by (simp add: Model_save_sample)
  have h3: "Model_save ?d False False () Map.empty [] = (Inr (), [(''id'', PyInt 1) # to_row ?d])"
    by (simp add: Model_save_sample)
  have r: "reload_calls sample_registry = 0" by (simp add: sample_registry_def)
  have a: "active ?c = PyBool True" "org_active ?c = PyBool False"
          "active ?d = PyBool True" "org_active ?d = PyBool True"
    by (simp_all add: sample_config_def)
  from save_reloads_on_transition[where super_save = Model_save and self = ?c
      and kwargs = Map.empty and reload = "Val (PyBool False)" and kwargs' = Map.empty
      and force_insert = False and force_update = False and args = "()" and db = "[]"
      and ret = "()" and db' = "[(''id'', PyInt 1) # to_row ?c]"
      and reg = sample_registry, OF h1 h2]
  have c: "save Model_save ?c False False () Map.empty ([], sample_registry)
            = (Inr (), [(''id'', PyInt 1) # to_row ?c], sample_registry\<lparr>reload_calls := 1\<rparr>)"
    by (simp add: r a)
  from save_reloads_on_transition[where super_save = Model_save and self = ?d
      and kwargs = Map.empty and reload = "Val (PyBool False)" and kwargs' = Map.empty
      and force_insert = False and force_update = False and args = "()" and db = "[]"
      and ret = "()" and db' = "[(''id'', PyInt 1) # to_row ?d]"
      and reg = sample_registry, OF h1 h3]
  have d: "save Model_save ?d False False () Map.empty ([], sample_registry)
            = (Inr (), [(''id'', PyInt 1) # to_row ?d], sample_registry\<lparr>reload_calls := 0\<rparr>)"
    by (simp add: r a)
  from h1 h2 c h3 d show ?thesis by (intro conjI)
qed

text \<open>
  The claim as stated fails twice. With \<^verbatim>\<open>no_reload=True\<close> a save of an instance whose
  flag went from false to true leaves the registry as it was. And without the keyword, a
  save of an instance constructed with \<^verbatim>\<open>False\<close> whose flag has since been set to the
  integer 1 (true in an \<^verbatim>\<open>if\<close>, stored as true, but not the object \<^verbatim>\<open>True\<close>) leaves it
  as it was too.
\<close>

theorem save_transition_without_reload:
  "active (sample_config ''sample'' (PyBool True) (PyBool False)) = PyBool True \<and>
   org_active (sample_config ''sample'' (PyBool True) (PyBool False)) = PyBool False \<and>
   reload_calls sample_registry = 0 \<and>
   save Model_save (sample_config ''sample'' (PyBool True) (PyBool False)) False False ()
       [''no_reload'' \<mapsto> Val (PyBool True)] ([], sample_registry)
     = (Inr (), [(''id'', PyInt 1) # to_row (sample_config ''sample'' (PyBool True) (PyBool False))],
        sample_registry) \<and>
   truthy (PyInt 1) \<and>
   save Model_save (sample_config ''sample'' (PyInt 1) (PyBool False)) False False ()
       Map.empty ([], sample_registry)
     = (Inr (), [(''id'', PyInt 1) # to_row (sample_config ''sample'' (PyInt 1) (PyBool False))],
        sample_registry)"
  by (simp add: save_def kw_pop_def Model_save_sample active_changed_def)
     (simp add: sample_config_def sample_registry_def)

text \<open>
  Claim C9: called with \<^verbatim>\<open>no_reload=True\<close>, \<open>save\<close> is the underlying save (which gets
  the keyword arguments without \<^verbatim>\<open>no_reload\<close>) and leaves the registry untouched, for
  every instance and whatever its flags are.
\<close>

theorem save_no_reload:
  "save super_save self force_insert force_update args
       (kwargs(''no_reload'' \<mapsto> Val (PyBool True))) (db, reg) =
     (case super_save self force_insert force_update args (kwargs(''no_reload'' := None)) db of
        (res, db') \<Rightarrow> (res, db', reg))"
  by (auto simp: save_def kw_pop_def split: prod.splits sum.splits)

theorem save_no_reload_witness:
  "save Model_save (sample_config ''sample'' (PyBool False) (PyBool True)) False False ()
       [''no_reload'' \<mapsto> Val (PyBool True)] ([], sample_registry)
     = (Inr (), [(''id'', PyInt 1) # to_row (sample_config ''sample'' (PyBool False) (PyBool True))],
        sample_registry)"
  using save_no_reload[of Model_save "sample_config ''sample'' (PyBool False) (PyBool True)"
      False False "()" Map.empty "[]" sample_registry]
  by (simp add: Model_save_sample)

subsection \<open>__init__\<close>

lemma build_meta_None: "build_meta None ns = Inr (map (\<lambda>n. (n, PyNone)) ns)"
  by (induction ns) (simp_all add: get_plugin_meta_def plugin_is_true_def)

lemma build_meta_Some:
  "plugin_truthy p \<Longrightarrow> build_meta (Some p) ns = Inr m \<Longrightarrow>
   m = map (\<lambda>n. (n, PyStr (py_str (case plugin_attrs p n of Inl e \<Rightarrow> PyNone | Inr v \<Rightarrow> v)))) ns"
  by (induction ns arbitrary: m)
     (auto simp: get_plugin_meta_def plugin_is_true_def getattr_default_None_def
           split: sum.splits if_splits)

lemma build_meta_falsy:
  "\<not> plugin_truthy p \<Longrightarrow> build_meta (Some p) ns = Inr (map (\<lambda>n. (n, PyNone)) ns)"
  by (induction ns) (simp_all add: get_plugin_meta_def plugin_is_true_def)

lemma build_meta_Some_succeeds:
  "\<forall>n \<in> set ns. \<forall>e. plugin_attrs p n = Inl e \<longrightarrow> e = AttributeError \<Longrightarrow>
   \<exists>m. build_meta (Some p) ns = Inr m"
  by (induction ns)
     (auto simp: get_plugin_meta_def plugin_is_true_def getattr_default_None_def
           split: sum.splits)

lemma map_of_map_keys:
  "map_of (map (\<lambda>n. (n, f n)) ns) n = (if n \<in> set ns then Some (f n) else None)"
  by (induction ns) auto

text \<open>
  Claim C3: when the key is not in the registry, construction succeeds (given that the
  framework's constructor did), \<^verbatim>\<open>plugin\<close> is \<^verbatim>\<open>None\<close> and every one of the ten
  metadata values is \<^verbatim>\<open>None\<close>.
\<close>

theorem init_absent_plugin:
  assumes "super_init args = Inr f" and "plugins reg (key f) = None"
  shows "PluginConfig_init super_init reg args =
           Inr \<lparr>pk = pk f, key = key f, name = name f, active = active f,
                org_active = active f, plugin = None,
                meta = map (\<lambda>n. (n, PyNone)) META_KEYS\<rparr>"
  using assms by (simp add: PluginConfig_init_def build_meta_None)

theorem init_absent_plugin_witness:
  "sample_init (sample_fields ''absent'') = Inr (sample_fields ''absent'') \<and>
   plugins sample_registry (key (sample_fields ''absent'')) = None \<and>
   PluginConfig_init sample_init sample_registry (sample_fields ''absent'') =
     Inr \<lparr>pk = None, key = ''absent'', name = None, active = PyBool False,
          org_active = PyBool False, plugin = None,
          meta = [(''slug'', PyNone), (''human_name'', PyNone), (''description'', PyNone),
                  (''author'', PyNone), (''pub_date'', PyNone), (''version'', PyNone),
                  (''website'', PyNone), (''license'', PyNone), (''package_path'', PyNone),
                  (''settings_url'', PyNone)]\<rparr>"
proof -
  have h1: "sample_init (sample_fields ''absent'') = Inr (sample_fields ''absent'')"
    by (simp add: sample_init_def)
  have h2: "plugins sample_registry (key (sample_fields ''absent'')) = None"
    by (simp add: sample_registry_def sample_fields_def)
  from init_absent_plugin[where super_init = sample_init and args = "sample_fields ''absent''"
      and f = "sample_fields ''absent''" and reg = sample_registry, OF h1 h2] h1 h2
  show ?thesis
    by (simp add: sample_fields_def META_KEYS_def)
qed

text \<open>When no attribute read raises anything but \<^verbatim>\<open>AttributeError\<close>, construction succeeds.\<close>

lemma init_registered_plugin_succeeds:
  assumes "super_init args = Inr f" and "plugins reg (key f) = Some p"
    and "\<forall>n \<in> set META_KEYS. \<forall>e. plugin_attrs p n = Inl e \<longrightarrow> e = AttributeError"
  shows "\<exists>cfg. PluginConfig_init super_init reg args = Inr cfg"
proof -
  from build_meta_Some_succeeds[OF assms(3)] obtain m where "build_meta (Some p) META_KEYS = Inr m"
    by blast
  with assms(1,2) show ?thesis by (simp add: PluginConfig_init_def)
qed

text \<open>
  The claim as stated fails for a registered plugin that is false in an \<^verbatim>\<open>if\<close>:
  \<^verbatim>\<open>if self.plugin:\<close> sends it the way of a missing plugin, and every value of \<^verbatim>\<open>meta\<close>
  is \<^verbatim>\<open>None\<close>, although the key is in the registry and the plugin has a \<^verbatim>\<open>slug\<close>.
\<close>

theorem init_registered_falsy_plugin:
  "plugins sample_registry (key (sample_fields ''falsy'')) = Some falsy_plugin \<and>
   plugin_attrs falsy_plugin ''slug'' = Inr (PyStr ''falsy'') \<and>
   PluginConfig_init sample_init sample_registry (sample_fields ''falsy'') =
     Inr \<lparr>pk = None, key = ''falsy'', name = None, active = PyBool False,
          org_active = PyBool False, plugin = Some falsy_plugin,
          meta = [(''slug'', PyNone), (''human_name'', PyNone), (''description'', PyNone),
                  (''author'', PyNone), (''pub_date'', PyNone), (''version'', PyNone),
                  (''website'', PyNone), (''license'', PyNone), (''package_path'', PyNone),
                  (''settings_url'', PyNone)]\<rparr>"
  by (simp add: PluginConfig_init_def sample_init_def sample_fields_def sample_registry_def
      META_KEYS_def get_plugin_meta_def plugin_is_true_def falsy_plugin_def)

text \<open>
  Claim C10 as the code has it: when the key is in the registry and the registered plugin
  is true in an \<^verbatim>\<open>if\<close>, every value of \<^verbatim>\<open>meta\<close> is a string: the \<^verbatim>\<open>str\<close> of the
  attribute, and the string \<^verbatim>\<open>'None'\<close> for an attribute the plugin does not have. When
  the registered plugin is false in an \<^verbatim>\<open>if\<close>, every value of \<^verbatim>\<open>meta\<close> is \<^verbatim>\<open>None\<close>.
\<close>

theorem init_registered_plugin_meta:
  assumes "super_init args = Inr f" and "plugins reg (key f) = Some p"
    and "PluginConfig_init super_init reg args = Inr cfg"
  shows "(plugin_truthy p \<longrightarrow>
            (\<forall>n v. (n, v) \<in> set (meta cfg) \<longrightarrow> (\<exists>s. v = PyStr s)) \<and>
            (\<forall>n. n \<in> set META_KEYS \<and> plugin_attrs p n = Inl AttributeError \<longrightarrow>
                 map_of (meta cfg) n = Some (PyStr ''None'')) \<and>
            (\<forall>n v. n \<in> set META_KEYS \<and> plugin_attrs p n = Inr v \<longrightarrow>
                 map_of (meta cfg) n = Some (PyStr (py_str v)))) \<and>
         (\<not> plugin_truthy p \<longrightarrow> meta cfg = map (\<lambda>n. (n, PyNone)) META_KEYS)"
proof -
  let ?g = "\<lambda>n. PyStr (py_str (case plugin_attrs p n of Inl e \<Rightarrow> PyNone | Inr v \<Rightarrow> v))"
  from assms obtain m where b: "build_meta (Some p) META_KEYS = Inr m" and c: "meta cfg = m"
    by (auto simp: PluginConfig_init_def Let_def split: sum.splits)
  have t: "(\<forall>n v. (n, v) \<in> set (meta cfg) \<longrightarrow> (\<exists>s. v = PyStr s)) \<and>
            (\<forall>n. n \<in> set META_KEYS \<and> plugin_attrs p n = Inl AttributeError \<longrightarrow>
                 map_of (meta cfg) n = Some (PyStr ''None'')) \<and>
            (\<forall>n v. n \<in> set META_KEYS \<and> plugin_attrs p n = Inr v \<longrightarrow>
                 map_of (meta cfg) n = Some (PyStr (py_str v)))"
    if tr: "plugin_truthy p"
  proof -
    from build_meta_Some[OF tr b] c have m: "meta cfg = map (\<lambda>n. (n, ?g n)) META_KEYS" by simp
    have "\<exists>s. v = PyStr s" if "(n, v) \<in> set (meta cfg)" for n v
      using that unfolding m by auto
    moreover have "map_of (meta cfg) n = Some (PyStr ''None'')"
      if "n \<in> set META_KEYS" "plugin_attrs p n = Inl AttributeError" for n
      using that unfolding m map_of_map_keys by simp
    moreover have "map_of (meta cfg) n = Some (PyStr (py_str v))"
      if "n \<in> set META_KEYS" "plugin_attrs p n = Inr v" for n v
      using that unfolding m map_of_map_keys by simp
    ultimately show ?thesis by blast
  qed
  have f: "meta cfg = map (\<lambda>n. (n, PyNone)) META_KEYS" if fa: "\<not> plugin_truthy p"
    using build_meta_falsy[OF fa, of META_KEYS] b c by simp
  from t f show ?thesis by blast
qed

lemma sample_init_registered:
  "PluginConfig_init sample_init sample_registry (sample_fields ''sample'') =
     Inr \<lparr>pk = None, key = ''sample'', name = None, active = PyBool False,
          org_active = PyBool False, plugin = Some sample_plugin,
          meta = [(''slug'', PyStr ''sample''), (''human_name'', PyStr ''None''),
                  (''description'', PyStr ''None''), (''author'', PyStr ''None''),
                  (''pub_date'', PyStr ''None''), (''version'', PyStr ''2''),
                  (''website'', PyStr ''None''), (''license'', PyStr ''None''),
                  (''package_path'', PyStr ''None''), (''settings_url'', PyStr ''None'')]\<rparr>"
  by (simp add: PluginConfig_init_def sample_init_def sample_fields_def sample_registry_def
      META_KEYS_def get_plugin_meta_def plugin_is_true_def getattr_default_None_def
      sample_plugin_def digit_char_def)

lemma sample_init_falsy:
  "\<exists>cfg. PluginConfig_init sample_init sample_registry (sample_fields ''falsy'') = Inr cfg"
  by (simp add: PluginConfig_init_def sample_init_def sample_fields_def sample_registry_def
      META_KEYS_def get_plugin_meta_def plugin_is_true_def falsy_plugin_def)

theorem init_registered_plugin_meta_witness:
  "sample_init (sample_fields ''sample'') = Inr (sample_fields ''sample'') \<and>
   plugins sample_registry (key (sample_fields ''sample'')) = Some sample_plugin \<and>
   plugin_truthy sample_plugin \<and>
   (\<exists>cfg. PluginConfig_init sample_init sample_registry (sample_fields ''sample'') = Inr cfg \<and>
          ''human_name'' \<in> set META_KEYS \<and>
          plugin_attrs sample_plugin ''human_name'' = Inl AttributeError \<and>
          map_of (meta cfg) ''human_name'' = Some (PyStr ''None'') \<and>
          ''version'' \<in> set META_KEYS \<and>
          plugin_attrs sample_plugin ''version'' = Inr (PyInt 2) \<and>
          map_of (meta cfg) ''version'' = Some (PyStr (py_str (PyInt 2)))) \<and>
   sample_init (sample_fields ''falsy'') = Inr (sample_fields ''falsy'') \<and>
   plugins sample_registry (key (sample_fields ''falsy'')) = Some falsy_plugin \<and>
   \<not> plugin_truthy falsy_plugin \<and>
   (\<exists>cfg. PluginConfig_init sample_init sample_registry (sample_fields ''falsy'') = Inr cfg \<and>
          meta cfg = map (\<lambda>n. (n, PyNone)) META_KEYS)"
proof -
  have h1: "sample_init (sample_fields ''sample'') = Inr (sample_fields ''sample'')"
    and g1: "sample_init (sample_fields ''falsy'') = Inr (sample_fields ''falsy'')"
    by (simp_all add: sample_init_def)
  have h2: "plugins sample_registry (key (sample_fields ''sample'')) = Some sample_plugin"
    and g2: "plugins sample_registry (key (sample_fields ''falsy'')) = Some falsy_plugin"
    by (simp_all add: sample_registry_def sample_fields_def)
  have tr: "plugin_truthy sample_plugin" by (simp add: sample_plugin_def)
  have fa: "\<not> plugin_truthy falsy_plugin" by (simp add: falsy_plugin_def)
  obtain cfg where h3: "PluginConfig_init sample_init sample_registry (sample_fields ''sample'') = Inr cfg"
    using sample_init_registered by blast
  obtain cfg' where g3: "PluginConfig_init sample_init sample_registry (sample_fields ''falsy'') = Inr cfg'"
    using sample_init_falsy by blast
  have k1: "''human_name'' \<in> set META_KEYS" and k2: "''version'' \<in> set META_KEYS"
    by (simp_all add: META_KEYS_def)
  have a1: "plugin_attrs sample_plugin ''human_name'' = Inl AttributeError"
    and a2: "plugin_attrs sample_plugin ''version'' = Inr (PyInt 2)"
    by (simp_all add: sample_plugin_def)
  from init_registered_plugin_meta[where super_init = sample_init
      and args = "sample_fields ''sample''" and f = "sample_fields ''sample''"
      and reg = sample_registry and p = sample_plugin and cfg = cfg, OF h1 h2 h3] tr k1 k2 a1 a2
  have c1: "map_of (meta cfg) ''human_name'' = Some (PyStr ''None'')"
    and c2: "map_of (meta cfg) ''version'' = Some (PyStr (py_str (PyInt 2)))"
    by blast+
  from init_registered_plugin_meta[where super_init = sample_init
      and args = "sample_fields ''falsy''" and f = "sample_fields ''falsy''"
      and reg = sample_registry and p = falsy_plugin and cfg = cfg', OF g1 g2 g3] fa
  have c3: "meta cfg' = map (\<lambda>n. (n, PyNone)) META_KEYS"
    by blast
  have e1: "\<exists>cfg. PluginConfig_init sample_init sample_registry (sample_fields ''sample'') = Inr cfg \<and>
          ''human_name'' \<in> set META_KEYS \<and>
          plugin_attrs sample_plugin ''human_name'' = Inl AttributeError \<and>
          map_of (meta cfg) ''human_name'' = Some (PyStr ''None'') \<and>
          ''version'' \<in> set META_KEYS \<and>
          plugin_attrs sample_plugin ''version'' = Inr (PyInt 2) \<and>
          map_of (meta cfg) ''version'' = Some (PyStr (py_str (PyInt 2)))"
    using h3 k1 a1 c1 k2 a2 c2 by blast
  have e2: "\<exists>cfg. PluginConfig_init sample_init sample_registry (sample_fields ''falsy'') = Inr cfg \<and>
          meta cfg = map (\<lambda>n. (n, PyNone)) META_KEYS"
    using g3 c3 by blast
  from h1 h2 tr e1 g1 g2 fa e2 show ?thesis by (intro conjI)
qed

subsection \<open>mixins\<close>

text \<open>
  Claim C4: an \<^verbatim>\<open>AttributeError\<close> or \<^verbatim>\<open>ValueError\<close> (or an exception of a subclass)
  raised while reading \<^verbatim>\<open>self.plugin._mixinreg\<close> is replaced by the empty dictionary,
  and \<open>mixins\<close> never raises an exception of these kinds.
\<close>

theorem mixins_catches:
  "(\<forall>e. read_mixinreg self = Inl e \<longrightarrow>
        isinstance_exc e AttributeError \<or> isinstance_exc e ValueError \<longrightarrow>
        mixins self = Inr []) \<and>
   (\<forall>e. mixins self = Inl e \<longrightarrow>
        \<not> isinstance_exc e AttributeError \<and> \<not> isinstance_exc e ValueError)"
  by (auto simp: mixins_def split: sum.splits if_splits)

theorem mixins_catches_witness:
  "read_mixinreg (sample_config ''broken'' (PyBool True) (PyBool True)) = Inl ValueError \<and>
   isinstance_exc ValueError ValueError \<and>
   mixins (sample_config ''broken'' (PyBool True) (PyBool True)) = Inr [] \<and>
   read_mixinreg (sample_config ''absent'' (PyBool True) (PyBool True)) = Inl AttributeError \<and>
   isinstance_exc AttributeError AttributeError \<and>
   mixins (sample_config ''absent'' (PyBool True) (PyBool True)) = Inr []"
proof -
  have h1: "read_mixinreg (sample_config ''broken'' (PyBool True) (PyBool True)) = Inl ValueError"
    by (simp add: read_mixinreg_def sample_config_def sample_registry_def broken_plugin_def)
  have h2: "read_mixinreg (sample_config ''absent'' (PyBool True) (PyBool True)) = Inl AttributeError"
    by (simp add: read_mixinreg_def sample_config_def sample_registry_def)
  have i1: "isinstance_exc ValueError ValueError" and i2: "isinstance_exc AttributeError AttributeError"
    by simp_all
  from mixins_catches[of "sample_config ''broken'' (PyBool True) (PyBool True)"] h1 i1
  have c1: "mixins (sample_config ''broken'' (PyBool True) (PyBool True)) = Inr []" by blast
  from mixins_catches[of "sample_config ''absent'' (PyBool True) (PyBool True)"] h2 i2
  have c2: "mixins (sample_config ''absent'' (PyBool True) (PyBool True)) = Inr []" by blast
  from h1 h2 i1 i2 c1 c2 show ?thesis by blast
qed

text \<open>An exception of another kind goes on, and a readable registry is returned as it is.\<close>

lemma mixins_passes_others:
  "read_mixinreg self = Inl TypeError \<Longrightarrow> mixins self = Inl TypeError"
  "read_mixinreg self = Inr m \<Longrightarrow> mixins self = Inr m"
  by (simp_all add: mixins_def)

subsection \<open>Setting definitions\<close>

text \<open>
  The claim as stated fails for a plugin instance that is false in an \<^verbatim>\<open>if\<close>: given
  as \<^verbatim>\<open>plugin\<close> with no \<^verbatim>\<open>settings\<close>, it does not pass \<^verbatim>\<open>if plugin:\<close>, and the base
  class is called with no settings at all, although the registry holds definitions under
  the key of the plugin's configuration.
\<close>

theorem get_setting_definition_falsy_plugin:
  "sample_plugin_config falsy_plugin = Inr (sample_config ''falsy'' (PyBool True) (PyBool True)) \<and>
   key (sample_config ''falsy'' (PyBool True) (PyBool True)) = ''falsy'' \<and>
   mixins_settings sample_registry ''falsy'' = Some [(''API_KEY'', [(''name'', PyStr ''Falsy Key'')])] \<and>
   PluginSetting_get_setting_definition sample_gsd sample_plugin_config sample_registry ''API_KEY''
       [''plugin'' \<mapsto> Base falsy_plugin]
     = sample_gsd ''API_KEY'' Map.empty \<and>
   sample_gsd ''API_KEY'' Map.empty = Inr [] \<and>
   sample_gsd ''API_KEY''
       [''settings'' \<mapsto> Settings [(''API_KEY'', [(''name'', PyStr ''Falsy Key'')])]]
     = Inr [(''name'', PyStr ''Falsy Key'')]"
  by (simp add: PluginSetting_get_setting_definition_def kw_pop_def sample_plugin_config_def
      falsy_plugin_def sample_config_def sample_registry_def sample_gsd_def)

text \<open>
  Claim C8 as the code has it: without a \<^verbatim>\<open>settings\<close> keyword and with a plugin given
  that is true in an \<^verbatim>\<open>if\<close> (a \<^verbatim>\<open>PluginConfig\<close>, or an \<^verbatim>\<open>InvenTreePluginBase\<close> instance
  that is true there), the definitions handed to the base class are
  \<^verbatim>\<open>registry.mixins_settings\<close> at the plugin's key, the empty dictionary when the key is
  not there; an \<^verbatim>\<open>InvenTreePluginBase\<close> instance goes through its \<^verbatim>\<open>plugin_config()\<close>
  first. With a plugin given that is false in an \<^verbatim>\<open>if\<close>, the registry is not consulted
  and the base class is called without \<^verbatim>\<open>plugin\<close> and without \<^verbatim>\<open>settings\<close>. A
  \<^verbatim>\<open>settings\<close> keyword of the caller is passed on as it is, with no look at the registry.
\<close>

theorem get_setting_definition_resolution:
  "(kwargs ''settings'' = None \<and> kwargs ''plugin'' = Some (Config cfg) \<longrightarrow>
      PluginSetting_get_setting_definition super_gsd plugin_config reg k kwargs =
        super_gsd k ((kwargs(''plugin'' := None))
          (''settings'' \<mapsto>
             Settings (case mixins_settings reg (key cfg) of None \<Rightarrow> [] | Some s \<Rightarrow> s)))) \<and>
   (kwargs ''settings'' = None \<and> kwargs ''plugin'' = Some (Base p) \<and> plugin_truthy p \<and>
    plugin_config p = Inr cfg \<longrightarrow>
      PluginSetting_get_setting_definition super_gsd plugin_config reg k kwargs =
        super_gsd k ((kwargs(''plugin'' := None))
          (''settings'' \<mapsto>
             Settings (case mixins_settings reg (key cfg) of None \<Rightarrow> [] | Some s \<Rightarrow> s)))) \<and>
   (kwargs ''settings'' = None \<and> kwargs ''plugin'' = Some pl \<and> \<not> kw_truthy pl \<longrightarrow>
      PluginSetting_get_setting_definition super_gsd plugin_config reg k kwargs =
        super_gsd k (kwargs(''plugin'' := None))) \<and>
   (kwargs ''settings'' = Some s \<longrightarrow>
      PluginSetting_get_setting_definition super_gsd plugin_config reg k kwargs =
        super_gsd k kwargs)"
  by (simp add: PluginSetting_get_setting_definition_def kw_pop_def lookup_mixins_settings_def)

theorem get_setting_definition_resolution_witness:
  "PluginSetting_get_setting_definition sample_gsd sample_plugin_config sample_registry ''API_KEY''
       [''plugin'' \<mapsto> Config (sample_config ''sample'' (PyBool True) (PyBool True))]
     = Inr [(''name'', PyStr ''API Key'')] \<and>
   PluginSetting_get_setting_definition sample_gsd sample_plugin_config sample_registry ''API_KEY''
       [''plugin'' \<mapsto> Config (sample_config ''absent'' (PyBool True) (PyBool True))]
     = Inr [] \<and>
   plugin_truthy sample_plugin \<and>
   sample_plugin_config sample_plugin = Inr (sample_config ''sample'' (PyBool True) (PyBool True)) \<and>
   PluginSetting_get_setting_definition sample_gsd sample_plugin_config sample_registry ''API_KEY''
       [''plugin'' \<mapsto> Base sample_plugin]
     = Inr [(''name'', PyStr ''API Key'')] \<and>
   \<not> kw_truthy (Base falsy_plugin) \<and>
   PluginSetting_get_setting_definition sample_gsd sample_plugin_config sample_registry ''API_KEY''
       [''plugin'' \<mapsto> Base falsy_plugin]
     = Inr [] \<and>
   PluginSetting_get_setting_definition sample_gsd sample_plugin_config sample_registry ''API_KEY''
       [''plugin'' \<mapsto> Config (sample_config ''sample'' (PyBool True) (PyBool True)),
        ''settings'' \<mapsto> Settings [(''API_KEY'', [(''name'', PyStr ''mine'')])]]
     = Inr [(''name'', PyStr ''mine'')]"
proof -
  let ?c = "sample_config ''sample'' (PyBool True) (PyBool True)"
  let ?a = "sample_config ''absent'' (PyBool True) (PyBool True)"
  let ?own = "Settings [(''API_KEY'', [(''name'', PyStr ''mine'')])]"
  have k: "key ?c = ''sample''" "key ?a = ''absent''" by (simp_all add: sample_config_def)
  have tr: "plugin_truthy sample_plugin" by (simp add: sample_plugin_def)
  have fa: "\<not> kw_truthy (Base falsy_plugin)" by (simp add: falsy_plugin_def)
  have pc: "sample_plugin_config sample_plugin = Inr ?c"
    by (simp add: sample_plugin_config_def sample_plugin_def)
  have c1: "PluginSetting_get_setting_definition sample_gsd sample_plugin_config sample_registry
              ''API_KEY'' [''plugin'' \<mapsto> Config ?c] = Inr [(''name'', PyStr ''API Key'')]"
    using get_setting_definition_resolution[where kwargs = "[''plugin'' \<mapsto> Config ?c]"
        and cfg = ?c and super_gsd = sample_gsd and plugin_config = sample_plugin_config
        and reg = sample_registry and k = "''API_KEY''"]
    by (simp add: k sample_gsd_def sample_registry_def)
  have c2: "PluginSetting_get_setting_definition sample_gsd sample_plugin_config sample_registry
              ''API_KEY'' [''plugin'' \<mapsto> Config ?a] = Inr []"
    using get_setting_definition_resolution[where kwargs = "[''plugin'' \<mapsto> Config ?a]"
        and cfg = ?a and super_gsd = sample_gsd and plugin_config = sample_plugin_config
        and reg = sample_registry and k = "''API_KEY''"]
    by (simp add: k sample_gsd_def sample_registry_def)
  have c3: "PluginSetting_get_setting_definition sample_gsd sample_plugin_config sample_registry
              ''API_KEY'' [''plugin'' \<mapsto> Base sample_plugin] = Inr [(''name'', PyStr ''API Key'')]"
    using get_setting_definition_resolution[where kwargs = "[''plugin'' \<mapsto> Base sample_plugin]"
        and p = sample_plugin and cfg = ?c and super_gsd = sample_gsd
        and plugin_config = sample_plugin_config and reg = sample_registry and k = "''API_KEY''"]
    by (simp add: k pc tr sample_gsd_def sample_registry_def)
  have c4: "PluginSetting_get_setting_definition sample_gsd sample_plugin_config sample_registry
              ''API_KEY'' [''plugin'' \<mapsto> Base falsy_plugin] = Inr []"
    using get_setting_definition_resolution[where kwargs = "[''plugin'' \<mapsto> Base falsy_plugin]"
        and pl = "Base falsy_plugin" and super_gsd = sample_gsd
        and plugin_config = sample_plugin_config and reg = sample_registry and k = "''API_KEY''"]
      fa
    by (simp add: sample_gsd_def)
  have c5: "PluginSetting_get_setting_definition sample_gsd sample_plugin_config sample_registry
              ''API_KEY'' [''plugin'' \<mapsto> Config ?c, ''settings'' \<mapsto> ?own]
            = Inr [(''name'', PyStr ''mine'')]"
    using get_setting_definition_resolution[where
        kwargs = "[''plugin'' \<mapsto> Config ?c, ''settings'' \<mapsto> ?own]"
        and s = ?own and super_gsd = sample_gsd and plugin_config = sample_plugin_config
        and reg = sample_registry and k = "''API_KEY''"]
    by (simp add: sample_gsd_def)
  from c1 c2 tr pc c3 fa c4 c5 show ?thesis by (intro conjI)
qed

text \<open>Without a \<^verbatim>\<open>settings\<close> keyword and without a plugin, the base class is called as is.\<close>

lemma get_setting_definition_no_plugin:
  "kwargs ''settings'' = None \<Longrightarrow> kwargs ''plugin'' = None \<Longrightarrow>
   PluginSetting_get_setting_definition super_gsd plugin_config reg k kwargs = super_gsd k kwargs"
  by (simp add: PluginSetting_get_setting_definition_def kw_pop_def)

section \<open>Properties of the persisted tables\<close>

lemma conflicts_sym: "conflicts cols r r' = conflicts cols r' r"
  by (auto simp: conflicts_def list_all_iff)

lemma any_conflict_sym: "any_conflict m r r' = any_conflict m r' r"
  unfolding any_conflict_def list_ex_iff using conflicts_sym by blast

lemma has_pk_id_not_null: "has_pk m \<Longrightarrow> \<not> null_violation m r \<Longrightarrow> row_id r \<noteq> PyNone"
  by (auto simp: has_pk_def null_violation_def list_ex_iff row_id_def)

lemma has_pk_unique_set: "has_pk m \<Longrightarrow> [''id''] \<in> set (unique_sets m)"
  by (force simp: has_pk_def unique_sets_def list_ex_iff)

lemma has_pk_ids_differ:
  assumes "has_pk m" and "\<not> null_violation m r" and "\<not> any_conflict m r r'"
  shows "row_id r \<noteq> row_id r'"
proof
  assume eq: "row_id r = row_id r'"
  have "row_id r \<noteq> PyNone" using assms(1,2) by (rule has_pk_id_not_null)
  with eq have "conflicts [''id''] r r'" by (simp add: conflicts_def row_id_def)
  with has_pk_unique_set[OF assms(1)] have "any_conflict m r r'"
    by (auto simp: any_conflict_def list_ex_iff)
  with assms(3) show False by simp
qed

subsection \<open>Every write keeps the table in order\<close>

lemma table_ok_insert:
  assumes "table_ok m tbl" and "db_insert m tbl r = Inr tbl'"
  shows "table_ok m tbl'"
  using assms
  by (auto simp: table_ok_def db_insert_def Let_def sorted_wrt_append list_ex_iff
        any_conflict_sym[of m _ "(''id'', PyInt (fresh_id tbl)) # r"] any_conflict_sym[of m _ r]
      split: if_splits)

lemma table_ok_delete: "table_ok m tbl \<Longrightarrow> table_ok m (db_delete tbl i)"
  by (auto simp: table_ok_def db_delete_def sorted_wrt_filter list_all_iff)

lemma update_map_ok:
  assumes "has_pk m" and "\<not> null_violation m r"
    and "\<forall>x \<in> set tbl. row_id x \<noteq> row_id r \<longrightarrow> \<not> any_conflict m r x"
    and "table_ok m tbl"
  shows "table_ok m (map (\<lambda>x. if row_id x = row_id r then r else x) tbl)"
  using assms(3,4)
proof (induction tbl)
  case Nil
  then show ?case by (simp add: table_ok_def)
next
  case (Cons x xs)
  let ?f = "\<lambda>x. if row_id x = row_id r then r else x"
  from Cons.prems have ok_xs: "table_ok m xs" and nx: "\<not> null_violation m x"
    and px: "\<forall>y \<in> set xs. \<not> any_conflict m x y"
    by (auto simp: table_ok_def)
  from Cons.prems have others: "\<forall>y \<in> set xs. row_id y \<noteq> row_id r \<longrightarrow> \<not> any_conflict m r y"
    by simp
  have ih: "table_ok m (map ?f xs)" using Cons.IH others ok_xs by blast
  show ?case
  proof (cases "row_id x = row_id r")
    case True
    have diff: "\<forall>y \<in> set xs. row_id y \<noteq> row_id r"
    proof
      fix y assume "y \<in> set xs"
      with px have "\<not> any_conflict m x y" by blast
      from has_pk_ids_differ[OF assms(1) nx this] True show "row_id y \<noteq> row_id r" by simp
    qed
    then have "map ?f xs = xs" by (induction xs) auto
    moreover have "\<forall>y \<in> set xs. \<not> any_conflict m r y" using diff others by blast
    ultimately show ?thesis using True ok_xs assms(2) by (auto simp: table_ok_def)
  next
    case False
    have "\<not> any_conflict m r x" using Cons.prems(1) False by simp
    then have "\<not> any_conflict m x r" by (simp add: any_conflict_sym)
    then have "\<forall>z \<in> set (map ?f xs). \<not> any_conflict m x z" using px by auto
    then show ?thesis using False ih nx by (auto simp: table_ok_def)
  qed
qed

lemma table_ok_update:
  assumes "has_pk m" and "table_ok m tbl" and "db_update m tbl r = Inr tbl'"
  shows "table_ok m tbl'"
proof -
  from assms(3) have nv: "\<not> null_violation m r"
    and nc: "\<forall>x \<in> set tbl. row_id x \<noteq> row_id r \<longrightarrow> \<not> any_conflict m r x"
    and eq: "tbl' = map (\<lambda>x. if row_id x = row_id r then r else x) tbl"
    by (auto simp: db_update_def list_ex_iff split: if_splits)
  show ?thesis unfolding eq by (rule update_map_ok[OF assms(1) nv nc assms(2)])
qed

lemma stored_table_ok: "stored m tbl \<Longrightarrow> has_pk m \<Longrightarrow> table_ok m tbl"
proof (induction rule: stored.induct)
  case stored_empty
  then show ?case by (simp add: table_ok_def)
next
  case (stored_write tbl op tbl')
  then show ?case
    by (cases op) (auto intro: table_ok_insert table_ok_update table_ok_delete)
qed

lemma table_ok_nth:
  assumes "table_ok m tbl" and "i < length tbl" and "j < length tbl" and "i \<noteq> j"
  shows "\<not> any_conflict m (tbl ! i) (tbl ! j)"
proof -
  have s: "sorted_wrt (\<lambda>r r'. \<not> any_conflict m r r') tbl"
    using assms(1) by (simp add: table_ok_def)
  show ?thesis
  proof (cases "i < j")
    case True
    with s assms(3) show ?thesis by (simp add: sorted_wrt_iff_nth_less)
  next
    case False
    with assms(4) have "j < i" by simp
    with s assms(2) have "\<not> any_conflict m (tbl ! j) (tbl ! i)"
      by (simp add: sorted_wrt_iff_nth_less)
    then show ?thesis by (simp add: any_conflict_sym)
  qed
qed

lemma table_ok_not_null: "table_ok m tbl \<Longrightarrow> r \<in> set tbl \<Longrightarrow> \<not> null_violation m r"
  by (simp add: table_ok_def list_all_iff)

lemma has_pk_models:
  "has_pk PluginConfig_model" "has_pk PluginSetting_model" "has_pk NotificationUserSetting_model"
  by (simp_all add: has_pk_def PluginConfig_model_def PluginSetting_model_def
        NotificationUserSetting_model_def)

lemma col_fresh_id: "c \<noteq> ''id'' \<Longrightarrow> col ((''id'', v) # r) c = col r c"
  by (simp add: col_def)

lemma insert_conflict_refused:
  assumes "r' \<in> set tbl"
    and "any_conflict m (if row_id r = PyNone then (''id'', PyInt (fresh_id tbl)) # r else r) r'"
  shows "db_insert m tbl r = Inl IntegrityError"
  using assms by (auto simp: db_insert_def Let_def list_ex_iff)

lemma stored_two_inserts:
  assumes "db_insert m [] r1 = Inr [r1]" and "db_insert m [r1] r2 = Inr [r1, r2]"
  shows "stored m [r1, r2]"
proof -
  have "stored m [r1]"
    by (rule stored_write[where op = "Insert r1" and tbl = "[]"])
       (simp_all add: stored_empty assms(1))
  then show ?thesis
    by (rule stored_write[where op = "Insert r2"]) (simp add: assms(2))
qed


subsection \<open>PluginConfig.key\<close>

text \<open>
  Claim C5: in every table of \<^verbatim>\<open>PluginConfig\<close> rows that can be stored, two different
  rows have different keys, and inserting a row whose key is already stored fails.
\<close>

theorem PluginConfig_key_unique:
  assumes "stored PluginConfig_model tbl"
  shows "(\<forall>i j. i < length tbl \<and> j < length tbl \<and> i \<noteq> j \<longrightarrow>
            col (tbl ! i) ''key'' \<noteq> col (tbl ! j) ''key'') \<and>
         (\<forall>r r'. r' \<in> set tbl \<and> col r ''key'' = col r' ''key'' \<longrightarrow>
            db_insert PluginConfig_model tbl r = Inl IntegrityError)"
proof -
  have ok: "table_ok PluginConfig_model tbl"
    using assms has_pk_models(1) by (rule stored_table_ok)
  have nn: "col x ''key'' \<noteq> PyNone" if "x \<in> set tbl" for x
    using table_ok_not_null[OF ok that]
    by (simp add: null_violation_def PluginConfig_model_def)
  have a: "col (tbl ! i) ''key'' \<noteq> col (tbl ! j) ''key''"
    if "i < length tbl" "j < length tbl" "i \<noteq> j" for i j
  proof -
    have "\<not> any_conflict PluginConfig_model (tbl ! i) (tbl ! j)"
      using ok that by (rule table_ok_nth)
    then have "\<not> conflicts [''key''] (tbl ! i) (tbl ! j)"
      by (simp add: any_conflict_def unique_sets_def PluginConfig_model_def)
    moreover have "col (tbl ! i) ''key'' \<noteq> PyNone" using nn that(1) by simp
    ultimately show ?thesis by (simp add: conflicts_def)
  qed
  have b: "db_insert PluginConfig_model tbl r = Inl IntegrityError"
    if "r' \<in> set tbl" "col r ''key'' = col r' ''key''" for r r'
  proof (rule insert_conflict_refused[OF that(1)])
    let ?r = "if row_id r = PyNone then (''id'', PyInt (fresh_id tbl)) # r else r"
    have "col ?r ''key'' = col r' ''key''" using that(2) by (simp add: col_fresh_id)
    with nn[OF that(1)] have "conflicts [''key''] ?r r'" by (simp add: conflicts_def)
    then show "any_conflict PluginConfig_model ?r r'"
      by (simp add: any_conflict_def unique_sets_def PluginConfig_model_def)
  qed
  from a b show ?thesis by blast
qed

theorem PluginConfig_key_unique_witness:
  "stored PluginConfig_model [pc_row 1 ''sample'', pc_row 2 ''other''] \<and>
   col ([pc_row 1 ''sample'', pc_row 2 ''other''] ! 0) ''key'' \<noteq>
     col ([pc_row 1 ''sample'', pc_row 2 ''other''] ! 1) ''key'' \<and>
   pc_row 1 ''sample'' \<in> set [pc_row 1 ''sample'', pc_row 2 ''other''] \<and>
   col (pc_row 3 ''sample'') ''key'' = col (pc_row 1 ''sample'') ''key'' \<and>
   db_insert PluginConfig_model [pc_row 1 ''sample'', pc_row 2 ''other''] (pc_row 3 ''sample'')
     = Inl IntegrityError"
proof -
  let ?t = "[pc_row 1 ''sample'', pc_row 2 ''other'']"
  have s: "stored PluginConfig_model ?t"
    by (rule stored_two_inserts) (simp_all add: store_defs PluginConfig_model_def pc_row_def)
  have m: "pc_row 1 ''sample'' \<in> set ?t" by simp
  have e: "col (pc_row 3 ''sample'') ''key'' = col (pc_row 1 ''sample'') ''key''"
    by (simp add: col_def pc_row_def)
  note t = PluginConfig_key_unique[OF s]
  have c1: "col (?t ! 0) ''key'' \<noteq> col (?t ! 1) ''key''"
    using t[THEN conjunct1, rule_format, of 0 1] by simp
  have c2: "db_insert PluginConfig_model ?t (pc_row 3 ''sample'') = Inl IntegrityError"
    using t[THEN conjunct2, rule_format, of "pc_row 1 ''sample''" "pc_row 3 ''sample''"] m e
    by simp
  from s c1 m e c2 show ?thesis by (intro conjI)
qed

subsection \<open>PluginSetting\<close>

text \<open>
  Claim C6: in every table of \<^verbatim>\<open>PluginSetting\<close> rows that can be stored, no two
  different rows have both the same plugin and the same key, and inserting a row whose
  pair is already stored fails.
\<close>

theorem PluginSetting_unique_together:
  assumes "stored PluginSetting_model tbl"
  shows "(\<forall>i j. i < length tbl \<and> j < length tbl \<and> i \<noteq> j \<longrightarrow>
            \<not> (col (tbl ! i) ''plugin'' = col (tbl ! j) ''plugin'' \<and>
               col (tbl ! i) ''key'' = col (tbl ! j) ''key'')) \<and>
         (\<forall>r r'. r' \<in> set tbl \<and> col r ''plugin'' = col r' ''plugin'' \<and>
                 col r ''key'' = col r' ''key'' \<longrightarrow>
            db_insert PluginSetting_model tbl r = Inl IntegrityError)"
proof -
  have ok: "table_ok PluginSetting_model tbl"
    using assms has_pk_models(2) by (rule stored_table_ok)
  have nn: "col x ''key'' \<noteq> PyNone \<and> col x ''plugin'' \<noteq> PyNone" if "x \<in> set tbl" for x
    using table_ok_not_null[OF ok that]
    by (simp add: null_violation_def PluginSetting_model_def)
  have a: "\<not> (col (tbl ! i) ''plugin'' = col (tbl ! j) ''plugin'' \<and>
               col (tbl ! i) ''key'' = col (tbl ! j) ''key'')"
    if "i < length tbl" "j < length tbl" "i \<noteq> j" for i j
  proof -
    have "\<not> any_conflict PluginSetting_model (tbl ! i) (tbl ! j)"
      using ok that by (rule table_ok_nth)
    then have "\<not> conflicts [''plugin'', ''key''] (tbl ! i) (tbl ! j)"
      by (simp add: any_conflict_def unique_sets_def PluginSetting_model_def)
    moreover have "col (tbl ! i) ''key'' \<noteq> PyNone \<and> col (tbl ! i) ''plugin'' \<noteq> PyNone"
      using nn that(1) by simp
    ultimately show ?thesis by (simp add: conflicts_def)
  qed
  have b: "db_insert PluginSetting_model tbl r = Inl IntegrityError"
    if "r' \<in> set tbl" "col r ''plugin'' = col r' ''plugin''" "col r ''key'' = col r' ''key''"
    for r r'
  proof (rule insert_conflict_refused[OF that(1)])
    let ?r = "if row_id r = PyNone then (''id'', PyInt (fresh_id tbl)) # r else r"
    have "col ?r ''key'' = col r' ''key''" "col ?r ''plugin'' = col r' ''plugin''"
      using that(2,3) by (simp_all add: col_fresh_id)
    with nn[OF that(1)] have "conflicts [''plugin'', ''key''] ?r r'" by (simp add: conflicts_def)
    then show "any_conflict PluginSetting_model ?r r'"
      by (simp add: any_conflict_def unique_sets_def PluginSetting_model_def)
  qed
  from a b show ?thesis by blast
qed

theorem PluginSetting_unique_together_witness:
  "stored PluginSetting_model [ps_row 1 1 ''API_KEY'', ps_row 2 2 ''API_KEY''] \<and>
   \<not> (col ([ps_row 1 1 ''API_KEY'', ps_row 2 2 ''API_KEY''] ! 0) ''plugin'' =
       col ([ps_row 1 1 ''API_KEY'', ps_row 2 2 ''API_KEY''] ! 1) ''plugin'' \<and>
      col ([ps_row 1 1 ''API_KEY'', ps_row 2 2 ''API_KEY''] ! 0) ''key'' =
       col ([ps_row 1 1 ''API_KEY'', ps_row 2 2 ''API_KEY''] ! 1) ''key'') \<and>
   ps_row 2 2 ''API_KEY'' \<in> set [ps_row 1 1 ''API_KEY'', ps_row 2 2 ''API_KEY''] \<and>
   col (ps_row 3 2 ''API_KEY'') ''plugin'' = col (ps_row 2 2 ''API_KEY'') ''plugin'' \<and>
   col (ps_row 3 2 ''API_KEY'') ''key'' = col (ps_row 2 2 ''API_KEY'') ''key'' \<and>
   db_insert PluginSetting_model [ps_row 1 1 ''API_KEY'', ps_row 2 2 ''API_KEY'']
       (ps_row 3 2 ''API_KEY'') = Inl IntegrityError"
proof -
  let ?t = "[ps_row 1 1 ''API_KEY'', ps_row 2 2 ''API_KEY'']"
  have s: "stored PluginSetting_model ?t"
    by (rule stored_two_inserts) (simp_all add: store_defs PluginSetting_model_def ps_row_def)
  have m: "ps_row 2 2 ''API_KEY'' \<in> set ?t" by simp
  have e: "col (ps_row 3 2 ''API_KEY'') ''plugin'' = col (ps_row 2 2 ''API_KEY'') ''plugin''"
       "col (ps_row 3 2 ''API_KEY'') ''key'' = col (ps_row 2 2 ''API_KEY'') ''key''"
    by (simp_all add: col_def ps_row_def)
  note t = PluginSetting_unique_together[OF s]
  have c1: "\<not> (col (?t ! 0) ''plugin'' = col (?t ! 1) ''plugin'' \<and>
                col (?t ! 0) ''key'' = col (?t ! 1) ''key'')"
    using t[THEN conjunct1, rule_format, of 0 1] by simp
  have c2: "db_insert PluginSetting_model ?t (ps_row 3 2 ''API_KEY'') = Inl IntegrityError"
    using t[THEN conjunct2, rule_format, of "ps_row 2 2 ''API_KEY''" "ps_row 3 2 ''API_KEY''"] m e
    by simp
  from s c1 m e c2 show ?thesis by (intro conjI)
qed

subsection \<open>NotificationUserSetting\<close>

text \<open>
  The column \<^verbatim>\<open>user\<close> is declared \<^verbatim>\<open>null=True\<close>. Two rows with the same method and key
  and no user are both stored: the triple does not identify them.
\<close>

theorem NotificationUserSetting_null_user_duplicates:
  "db_insert NotificationUserSetting_model [] (nus_row 1 PyNone) = Inr [nus_row 1 PyNone] \<and>
   db_insert NotificationUserSetting_model [nus_row 1 PyNone] (nus_row 2 PyNone)
     = Inr [nus_row 1 PyNone, nus_row 2 PyNone] \<and>
   col (nus_row 1 PyNone) ''method'' = col (nus_row 2 PyNone) ''method'' \<and>
   col (nus_row 1 PyNone) ''user'' = col (nus_row 2 PyNone) ''user'' \<and>
   col (nus_row 1 PyNone) ''key'' = col (nus_row 2 PyNone) ''key''"
  by (simp add: store_defs NotificationUserSetting_model_def nus_row_def)

text \<open>
  Claim C7 as the code has it: rows with a user are identified by the triple (method,
  user, key): no two different stored rows of which one has a user agree on all three, and
  inserting a row with a user whose triple is stored fails. The setting definitions are
  \<^verbatim>\<open>storage.user_settings\<close> whatever \<^verbatim>\<open>settings\<close> the caller passes.
\<close>

theorem NotificationUserSetting_unique_and_definitions:
  assumes "stored NotificationUserSetting_model tbl"
  shows "(\<forall>i j. i < length tbl \<and> j < length tbl \<and> i \<noteq> j \<and> col (tbl ! i) ''user'' \<noteq> PyNone \<longrightarrow>
            \<not> (col (tbl ! i) ''method'' = col (tbl ! j) ''method'' \<and>
               col (tbl ! i) ''user'' = col (tbl ! j) ''user'' \<and>
               col (tbl ! i) ''key'' = col (tbl ! j) ''key'')) \<and>
         (\<forall>r r'. r' \<in> set tbl \<and> col r ''user'' \<noteq> PyNone \<and>
                 col r ''method'' = col r' ''method'' \<and> col r ''user'' = col r' ''user'' \<and>
                 col r ''key'' = col r' ''key'' \<longrightarrow>
            db_insert NotificationUserSetting_model tbl r = Inl IntegrityError) \<and>
         NotificationUserSetting_get_setting_definition super_gsd user_settings k kwargs
           = super_gsd k (kwargs(''settings'' \<mapsto> Settings user_settings)) \<and>
         NotificationUserSetting_get_setting_definition super_gsd user_settings k
             (kwargs(''settings'' \<mapsto> own))
           = NotificationUserSetting_get_setting_definition super_gsd user_settings k kwargs"
proof -
  have ok: "table_ok NotificationUserSetting_model tbl"
    using assms has_pk_models(3) by (rule stored_table_ok)
  have nn: "col x ''key'' \<noteq> PyNone \<and> col x ''method'' \<noteq> PyNone" if "x \<in> set tbl" for x
    using table_ok_not_null[OF ok that]
    by (simp add: null_violation_def NotificationUserSetting_model_def)
  have a: "\<not> (col (tbl ! i) ''method'' = col (tbl ! j) ''method'' \<and>
               col (tbl ! i) ''user'' = col (tbl ! j) ''user'' \<and>
               col (tbl ! i) ''key'' = col (tbl ! j) ''key'')"
    if "i < length tbl" "j < length tbl" "i \<noteq> j" "col (tbl ! i) ''user'' \<noteq> PyNone" for i j
  proof -
    have "\<not> any_conflict NotificationUserSetting_model (tbl ! i) (tbl ! j)"
      using ok that(1,2,3) by (rule table_ok_nth)
    then have "\<not> conflicts [''method'', ''user'', ''key''] (tbl ! i) (tbl ! j)"
      by (simp add: any_conflict_def unique_sets_def NotificationUserSetting_model_def)
    moreover have "col (tbl ! i) ''key'' \<noteq> PyNone \<and> col (tbl ! i) ''method'' \<noteq> PyNone"
      using nn that(1) by simp
    ultimately show ?thesis using that(4) by (simp add: conflicts_def)
  qed
  have b: "db_insert NotificationUserSetting_model tbl r = Inl IntegrityError"
    if "r' \<in> set tbl" "col r ''user'' \<noteq> PyNone" "col r ''method'' = col r' ''method''"
       "col r ''user'' = col r' ''user''" "col r ''key'' = col r' ''key''"
    for r r'
  proof (rule insert_conflict_refused[OF that(1)])
    let ?r = "if row_id r = PyNone then (''id'', PyInt (fresh_id tbl)) # r else r"
    have "col ?r ''key'' = col r' ''key''" "col ?r ''method'' = col r' ''method''"
         "col ?r ''user'' = col r' ''user''" "col ?r ''user'' \<noteq> PyNone"
      using that(2,3,4,5) by (simp_all add: col_fresh_id)
    with nn[OF that(1)] have "conflicts [''method'', ''user'', ''key''] ?r r'"
      by (simp add: conflicts_def)
    then show "any_conflict NotificationUserSetting_model ?r r'"
      by (simp add: any_conflict_def unique_sets_def NotificationUserSetting_model_def)
  qed
  have c: "NotificationUserSetting_get_setting_definition super_gsd user_settings k kwargs
             = super_gsd k (kwargs(''settings'' \<mapsto> Settings user_settings))"
    and d: "NotificationUserSetting_get_setting_definition super_gsd user_settings k
               (kwargs(''settings'' \<mapsto> own))
             = NotificationUserSetting_get_setting_definition super_gsd user_settings k kwargs"
    by (simp_all add: NotificationUserSetting_get_setting_definition_def)
  from a b c d show ?thesis by blast
qed

theorem NotificationUserSetting_unique_and_definitions_witness:
  "stored NotificationUserSetting_model [nus_row 1 (PyInt 7), nus_row 2 (PyInt 8)] \<and>
   col ([nus_row 1 (PyInt 7), nus_row 2 (PyInt 8)] ! 0) ''user'' \<noteq> PyNone \<and>
   \<not> (col ([nus_row 1 (PyInt 7), nus_row 2 (PyInt 8)] ! 0) ''method'' =
       col ([nus_row 1 (PyInt 7), nus_row 2 (PyInt 8)] ! 1) ''method'' \<and>
      col ([nus_row 1 (PyInt 7), nus_row 2 (PyInt 8)] ! 0) ''user'' =
       col ([nus_row 1 (PyInt 7), nus_row 2 (PyInt 8)] ! 1) ''user'' \<and>
      col ([nus_row 1 (PyInt 7), nus_row 2 (PyInt 8)] ! 0) ''key'' =
       col ([nus_row 1 (PyInt 7), nus_row 2 (PyInt 8)] ! 1) ''key'') \<and>
   nus_row 1 (PyInt 7) \<in> set [nus_row 1 (PyInt 7), nus_row 2 (PyInt 8)] \<and>
   col (nus_row 3 (PyInt 7)) ''user'' \<noteq> PyNone \<and>
   col (nus_row 3 (PyInt 7)) ''method'' = col (nus_row 1 (PyInt 7)) ''method'' \<and>
   col (nus_row 3 (PyInt 7)) ''user'' = col (nus_row 1 (PyInt 7)) ''user'' \<and>
   col (nus_row 3 (PyInt 7)) ''key'' = col (nus_row 1 (PyInt 7)) ''key'' \<and>
   db_insert NotificationUserSetting_model [nus_row 1 (PyInt 7), nus_row 2 (PyInt 8)]
       (nus_row 3 (PyInt 7)) = Inl IntegrityError \<and>
   NotificationUserSetting_get_setting_definition sample_gsd
       [(''ENABLED'', [(''default'', PyBool True)])] ''ENABLED''
       [''settings'' \<mapsto> Settings [(''ENABLED'', [(''default'', PyBool False)])]]
     = Inr [(''default'', PyBool True)]"
proof -
  let ?t = "[nus_row 1 (PyInt 7), nus_row 2 (PyInt 8)]"
  let ?us = "[(''ENABLED'', [(''default'', PyBool True)])]"
  let ?kw = "[''settings'' \<mapsto> Settings [(''ENABLED'', [(''default'', PyBool False)])]]"
  have s: "stored NotificationUserSetting_model ?t"
    by (rule stored_two_inserts)
       (simp_all add: store_defs NotificationUserSetting_model_def nus_row_def)
  have u: "col (?t ! 0) ''user'' \<noteq> PyNone" by (simp add: col_def nus_row_def)
  have m: "nus_row 1 (PyInt 7) \<in> set ?t" by simp
  have e: "col (nus_row 3 (PyInt 7)) ''user'' \<noteq> PyNone"
       "col (nus_row 3 (PyInt 7)) ''method'' = col (nus_row 1 (PyInt 7)) ''method''"
       "col (nus_row 3 (PyInt 7)) ''user'' = col (nus_row 1 (PyInt 7)) ''user''"
       "col (nus_row 3 (PyInt 7)) ''key'' = col (nus_row 1 (PyInt 7)) ''key''"
    by (simp_all add: col_def nus_row_def)
  note t = NotificationUserSetting_unique_and_definitions[OF s,
      where super_gsd = sample_gsd and user_settings = ?us and k = "''ENABLED''" and kwargs = ?kw]
  have c1: "\<not> (col (?t ! 0) ''method'' = col (?t ! 1) ''method'' \<and>
            col (?t ! 0) ''user'' = col (?t ! 1) ''user'' \<and>
            col (?t ! 0) ''key'' = col (?t ! 1) ''key'')"
    using t[THEN conjunct1, rule_format, of 0 1] u by simp
  have c2: "db_insert NotificationUserSetting_model ?t (nus_row 3 (PyInt 7))
              = Inl IntegrityError"
    using t[THEN conjunct2, THEN conjunct1, rule_format,
        of "nus_row 1 (PyInt 7)" "nus_row 3 (PyInt 7)"] m e
    by simp
  have c3: "NotificationUserSetting_get_setting_definition sample_gsd ?us ''ENABLED'' ?kw
              = Inr [(''default'', PyBool True)]"
    using t[THEN conjunct2, THEN conjunct2, THEN conjunct1] by (simp add: sample_gsd_def)
  from s u c1 m e c2 c3 show ?thesis by (intro conjI)
qed

end
